theory Spec2Isabelle
  imports Main "HOL-Library.Sublist" "HOL-Library.Code_Target_Nat"
begin

section \<open>Strings and characters\<close>

text \<open>
  The program is Python 3: a \<^verbatim>\<open>str\<close> is a sequence of Unicode code points, and
  \<^verbatim>\<open>len\<close>, slicing and the offsets of a regular-expression match count code points.
  A string is therefore a list of code points, and a literal is written \<open>u ''...''\<close>.

  The classes \<^verbatim>\<open>[A-Z]\<close> and \<^verbatim>\<open>[a-z]\<close> of the patterns are ASCII ranges.
  Whitespace (\<^verbatim>\<open>str.strip\<close>, \<^verbatim>\<open>str.split\<close>, the pattern \<^verbatim>\<open>\s\<close>), decimal digits
  (\<^verbatim>\<open>\d\<close>), word characters (\<^verbatim>\<open>\w\<close>) and letter case (\<^verbatim>\<open>str.upper\<close>,
  \<^verbatim>\<open>str.lower\<close>, \<^verbatim>\<open>str.isupper\<close>) follow Python's character database, whose
  tables are written out below for Unicode 14.0, the version of CPython 3.11. Each table
  lists its entries in ascending order, so a lookup stops at the first entry that starts
  beyond the code point.
\<close>

type_synonym str = "nat list"

definition u :: "string \<Rightarrow> str" where
  "u s = map of_char s"

definition isspace :: "nat \<Rightarrow> bool" where
  "isspace c \<longleftrightarrow>
     (9 \<le> c \<and> c \<le> 13) \<or> (28 \<le> c \<and> c \<le> 32) \<or> c = 133 \<or> c = 160 \<or> c = 5760 \<or>
     (8192 \<le> c \<and> c \<le> 8202) \<or> c = 8232 \<or> c = 8233 \<or> c = 8239 \<or> c = 8287 \<or> c = 12288"

definition is_AZ :: "nat \<Rightarrow> bool" where
  "is_AZ c \<longleftrightarrow> 65 \<le> c \<and> c \<le> 90"

definition is_az :: "nat \<Rightarrow> bool" where
  "is_az c \<longleftrightarrow> 97 \<le> c \<and> c \<le> 122"

text \<open>A range \<open>(lo, hi)\<close> holds the code points from \<open>lo\<close> to \<open>hi\<close>.\<close>

fun in_ranges :: "nat \<Rightarrow> (nat \<times> nat) list \<Rightarrow> bool" where
  "in_ranges c [] = False"
| "in_ranges c ((lo, hi) # rs) =
     (if c < lo then False else if c \<le> hi then True else in_ranges c rs)"

text \<open>
  A range \<open>(lo, hi, step)\<close> holds \<open>lo\<close>, \<open>lo + step\<close>, ... up to \<open>hi\<close>: in many
  alphabets the capital and the small letters alternate.
\<close>

fun in_strided :: "nat \<Rightarrow> (nat \<times> nat \<times> nat) list \<Rightarrow> bool" where
  "in_strided c [] = False"
| "in_strided c ((lo, hi, step) # rs) =
     (if c < lo then False
      else if c \<le> hi then (c - lo) mod step = 0
      else in_strided c rs)"

text \<open>
  A run \<open>(lo, hi, step, target)\<close> maps \<open>lo\<close> to \<open>target\<close>, \<open>lo + step\<close> to
  \<open>target + step\<close>, and so on up to \<open>hi\<close>.
\<close>

fun map_run :: "nat \<Rightarrow> (nat \<times> nat \<times> nat \<times> nat) list \<Rightarrow> nat option" where
  "map_run c [] = None"
| "map_run c ((lo, hi, step, target) # rs) =
     (if c < lo then None
      else if c \<le> hi then (if (c - lo) mod step = 0 then Some (target + (c - lo)) else None)
      else map_run c rs)"

fun lookup_sorted :: "nat \<Rightarrow> (nat \<times> 'a) list \<Rightarrow> 'a option" where
  "lookup_sorted c [] = None"
| "lookup_sorted c ((k, v) # rs) =
     (if c < k then None else if c = k then Some v else lookup_sorted c rs)"

text \<open>The decimal digits (general category Nd): what \<^verbatim>\<open>\d\<close> matches.\<close>

definition decimal_ranges :: "(nat \<times> nat) list" where
  "decimal_ranges =
    [(48, 57), (1632, 1641), (1776, 1785), (1984, 1993), (2406, 2415), (2534, 2543),
     (2662, 2671), (2790, 2799), (2918, 2927), (3046, 3055), (3174, 3183), (3302, 3311),
     (3430, 3439), (3558, 3567), (3664, 3673), (3792, 3801), (3872, 3881), (4160, 4169),
     (4240, 4249), (6112, 6121), (6160, 6169), (6470, 6479), (6608, 6617), (6784, 6793),
     (6800, 6809), (6992, 7001), (7088, 7097), (7232, 7241), (7248, 7257), (42528, 42537),
     (43216, 43225), (43264, 43273), (43472, 43481), (43504, 43513), (43600, 43609),
     (44016, 44025), (65296, 65305), (66720, 66729), (68912, 68921), (69734, 69743),
     (69872, 69881), (69942, 69951), (70096, 70105), (70384, 70393), (70736, 70745),
     (70864, 70873), (71248, 71257), (71360, 71369), (71472, 71481), (71904, 71913),
     (72016, 72025), (72784, 72793), (73040, 73049), (73120, 73129), (92768, 92777),
     (92864, 92873), (93008, 93017), (120782, 120831), (123200, 123209), (123632, 123641),
     (125264, 125273), (130032, 130041)]"

definition isdigit :: "nat \<Rightarrow> bool" where
  "isdigit c \<longleftrightarrow> in_ranges c decimal_ranges"

text \<open>
  The alphanumeric characters (\<^verbatim>\<open>str.isalnum\<close>) and the underscore: what \<^verbatim>\<open>\w\<close>
  matches.
\<close>

definition word_ranges :: "(nat \<times> nat) list" where
  "word_ranges =
    [(48, 57), (65, 90), (95, 95), (97, 122), (170, 170), (178, 179), (181, 181), (185, 186),
     (188, 190), (192, 214), (216, 246), (248, 705), (710, 721), (736, 740), (748, 748),
     (750, 750), (880, 884), (886, 887), (890, 893), (895, 895), (902, 902), (904, 906),
     (908, 908), (910, 929), (931, 1013), (1015, 1153), (1162, 1327), (1329, 1366),
     (1369, 1369), (1376, 1416), (1488, 1514), (1519, 1522), (1568, 1610), (1632, 1641),
     (1646, 1647), (1649, 1747), (1749, 1749), (1765, 1766), (1774, 1788), (1791, 1791),
     (1808, 1808), (1810, 1839), (1869, 1957), (1969, 1969), (1984, 2026), (2036, 2037),
     (2042, 2042), (2048, 2069), (2074, 2074), (2084, 2084), (2088, 2088), (2112, 2136),
     (2144, 2154), (2160, 2183), (2185, 2190), (2208, 2249), (2308, 2361), (2365, 2365),
     (2384, 2384), (2392, 2401), (2406, 2415), (2417, 2432), (2437, 2444), (2447, 2448),
     (2451, 2472), (2474, 2480), (2482, 2482), (2486, 2489), (2493, 2493), (2510, 2510),
     (2524, 2525), (2527, 2529), (2534, 2545), (2548, 2553), (2556, 2556), (2565, 2570),
     (2575, 2576), (2579, 2600), (2602, 2608), (2610, 2611), (2613, 2614), (2616, 2617),
     (2649, 2652), (2654, 2654), (2662, 2671), (2674, 2676), (2693, 2701), (2703, 2705),
     (2707, 2728), (2730, 2736), (2738, 2739), (2741, 2745), (2749, 2749), (2768, 2768),
     (2784, 2785), (2790, 2799), (2809, 2809), (2821, 2828), (2831, 2832), (2835, 2856),
     (2858, 2864), (2866, 2867), (2869, 2873), (2877, 2877), (2908, 2909), (2911, 2913),
     (2918, 2927), (2929, 2935), (2947, 2947), (2949, 2954), (2958, 2960), (2962, 2965),
     (2969, 2970), (2972, 2972), (2974, 2975), (2979, 2980), (2984, 2986), (2990, 3001),
     (3024, 3024), (3046, 3058), (3077, 3084), (3086, 3088), (3090, 3112), (3114, 3129),
     (3133, 3133), (3160, 3162), (3165, 3165), (3168, 3169), (3174, 3183), (3192, 3198),
     (3200, 3200), (3205, 3212), (3214, 3216), (3218, 3240), (3242, 3251), (3253, 3257),
     (3261, 3261), (3293, 3294), (3296, 3297), (3302, 3311), (3313, 3314), (3332, 3340),
     (3342, 3344), (3346, 3386), (3389, 3389), (3406, 3406), (3412, 3414), (3416, 3425),
     (3430, 3448), (3450, 3455), (3461, 3478), (3482, 3505), (3507, 3515), (3517, 3517),
     (3520, 3526), (3558, 3567), (3585, 3632), (3634, 3635), (3648, 3654), (3664, 3673),
     (3713, 3714), (3716, 3716), (3718, 3722), (3724, 3747), (3749, 3749), (3751, 3760),
     (3762, 3763), (3773, 3773), (3776, 3780), (3782, 3782), (3792, 3801), (3804, 3807),
     (3840, 3840), (3872, 3891), (3904, 3911), (3913, 3948), (3976, 3980), (4096, 4138),
     (4159, 4169), (4176, 4181), (4186, 4189), (4193, 4193), (4197, 4198), (4206, 4208),
     (4213, 4225), (4238, 4238), (4240, 4249), (4256, 4293), (4295, 4295), (4301, 4301),
     (4304, 4346), (4348, 4680), (4682, 4685), (4688, 4694), (4696, 4696), (4698, 4701),
     (4704, 4744), (4746, 4749), (4752, 4784), (4786, 4789), (4792, 4798), (4800, 4800),
     (4802, 4805), (4808, 4822), (4824, 4880), (4882, 4885), (4888, 4954), (4969, 4988),
     (4992, 5007), (5024, 5109), (5112, 5117), (5121, 5740), (5743, 5759), (5761, 5786),
     (5792, 5866), (5870, 5880), (5888, 5905), (5919, 5937), (5952, 5969), (5984, 5996),
     (5998, 6000), (6016, 6067), (6103, 6103), (6108, 6108), (6112, 6121), (6128, 6137),
     (6160, 6169), (6176, 6264), (6272, 6276), (6279, 6312), (6314, 6314), (6320, 6389),
     (6400, 6430), (6470, 6509), (6512, 6516), (6528, 6571), (6576, 6601), (6608, 6618),
     (6656, 6678), (6688, 6740), (6784, 6793), (6800, 6809), (6823, 6823), (6917, 6963),
     (6981, 6988), (6992, 7001), (7043, 7072), (7086, 7141), (7168, 7203), (7232, 7241),
     (7245, 7293), (7296, 7304), (7312, 7354), (7357, 7359), (7401, 7404), (7406, 7411),
     (7413, 7414), (7418, 7418), (7424, 7615), (7680, 7957), (7960, 7965), (7968, 8005),
     (8008, 8013), (8016, 8023), (8025, 8025), (8027, 8027), (8029, 8029), (8031, 8061),
     (8064, 8116), (8118, 8124), (8126, 8126), (8130, 8132), (8134, 8140), (8144, 8147),
     (8150, 8155), (8160, 8172), (8178, 8180), (8182, 8188), (8304, 8305), (8308, 8313),
     (8319, 8329), (8336, 8348), (8450, 8450), (8455, 8455), (8458, 8467), (8469, 8469),
     (8473, 8477), (8484, 8484), (8486, 8486), (8488, 8488), (8490, 8493), (8495, 8505),
     (8508, 8511), (8517, 8521), (8526, 8526), (8528, 8585), (9312, 9371), (9450, 9471),
     (10102, 10131), (11264, 11492), (11499, 11502), (11506, 11507), (11517, 11517),
     (11520, 11557), (11559, 11559), (11565, 11565), (11568, 11623), (11631, 11631),
     (11648, 11670), (11680, 11686), (11688, 11694), (11696, 11702), (11704, 11710),
     (11712, 11718), (11720, 11726), (11728, 11734), (11736, 11742), (11823, 11823),
     (12293, 12295), (12321, 12329), (12337, 12341), (12344, 12348), (12353, 12438),
     (12445, 12447), (12449, 12538), (12540, 12543), (12549, 12591), (12593, 12686),
     (12690, 12693), (12704, 12735), (12784, 12799), (12832, 12841), (12872, 12879),
     (12881, 12895), (12928, 12937), (12977, 12991), (13312, 19903), (19968, 42124),
     (42192, 42237), (42240, 42508), (42512, 42539), (42560, 42606), (42623, 42653),
     (42656, 42735), (42775, 42783), (42786, 42888), (42891, 42954), (42960, 42961),
     (42963, 42963), (42965, 42969), (42994, 43009), (43011, 43013), (43015, 43018),
     (43020, 43042), (43056, 43061), (43072, 43123), (43138, 43187), (43216, 43225),
     (43250, 43255), (43259, 43259), (43261, 43262), (43264, 43301), (43312, 43334),
     (43360, 43388), (43396, 43442), (43471, 43481), (43488, 43492), (43494, 43518),
     (43520, 43560), (43584, 43586), (43588, 43595), (43600, 43609), (43616, 43638),
     (43642, 43642), (43646, 43695), (43697, 43697), (43701, 43702), (43705, 43709),
     (43712, 43712), (43714, 43714), (43739, 43741), (43744, 43754), (43762, 43764),
     (43777, 43782), (43785, 43790), (43793, 43798), (43808, 43814), (43816, 43822),
     (43824, 43866), (43868, 43881), (43888, 44002), (44016, 44025), (44032, 55203),
     (55216, 55238), (55243, 55291), (63744, 64109), (64112, 64217), (64256, 64262),
     (64275, 64279), (64285, 64285), (64287, 64296), (64298, 64310), (64312, 64316),
     (64318, 64318), (64320, 64321), (64323, 64324), (64326, 64433), (64467, 64829),
     (64848, 64911), (64914, 64967), (65008, 65019), (65136, 65140), (65142, 65276),
     (65296, 65305), (65313, 65338), (65345, 65370), (65382, 65470), (65474, 65479),
     (65482, 65487), (65490, 65495), (65498, 65500), (65536, 65547), (65549, 65574),
     (65576, 65594), (65596, 65597), (65599, 65613), (65616, 65629), (65664, 65786),
     (65799, 65843), (65856, 65912), (65930, 65931), (66176, 66204), (66208, 66256),
     (66273, 66299), (66304, 66339), (66349, 66378), (66384, 66421), (66432, 66461),
     (66464, 66499), (66504, 66511), (66513, 66517), (66560, 66717), (66720, 66729),
     (66736, 66771), (66776, 66811), (66816, 66855), (66864, 66915), (66928, 66938),
     (66940, 66954), (66956, 66962), (66964, 66965), (66967, 66977), (66979, 66993),
     (66995, 67001), (67003, 67004), (67072, 67382), (67392, 67413), (67424, 67431),
     (67456, 67461), (67463, 67504), (67506, 67514), (67584, 67589), (67592, 67592),
     (67594, 67637), (67639, 67640), (67644, 67644), (67647, 67669), (67672, 67702),
     (67705, 67742), (67751, 67759), (67808, 67826), (67828, 67829), (67835, 67867),
     (67872, 67897), (67968, 68023), (68028, 68047), (68050, 68096), (68112, 68115),
     (68117, 68119), (68121, 68149), (68160, 68168), (68192, 68222), (68224, 68255),
     (68288, 68295), (68297, 68324), (68331, 68335), (68352, 68405), (68416, 68437),
     (68440, 68466), (68472, 68497), (68521, 68527), (68608, 68680), (68736, 68786),
     (68800, 68850), (68858, 68899), (68912, 68921), (69216, 69246), (69248, 69289),
     (69296, 69297), (69376, 69415), (69424, 69445), (69457, 69460), (69488, 69505),
     (69552, 69579), (69600, 69622), (69635, 69687), (69714, 69743), (69745, 69746),
     (69749, 69749), (69763, 69807), (69840, 69864), (69872, 69881), (69891, 69926),
     (69942, 69951), (69956, 69956), (69959, 69959), (69968, 70002), (70006, 70006),
     (70019, 70066), (70081, 70084), (70096, 70106), (70108, 70108), (70113, 70132),
     (70144, 70161), (70163, 70187), (70272, 70278), (70280, 70280), (70282, 70285),
     (70287, 70301), (70303, 70312), (70320, 70366), (70384, 70393), (70405, 70412),
     (70415, 70416), (70419, 70440), (70442, 70448), (70450, 70451), (70453, 70457),
     (70461, 70461), (70480, 70480), (70493, 70497), (70656, 70708), (70727, 70730),
     (70736, 70745), (70751, 70753), (70784, 70831), (70852, 70853), (70855, 70855),
     (70864, 70873), (71040, 71086), (71128, 71131), (71168, 71215), (71236, 71236),
     (71248, 71257), (71296, 71338), (71352, 71352), (71360, 71369), (71424, 71450),
     (71472, 71483), (71488, 71494), (71680, 71723), (71840, 71922), (71935, 71942),
     (71945, 71945), (71948, 71955), (71957, 71958), (71960, 71983), (71999, 71999),
     (72001, 72001), (72016, 72025), (72096, 72103), (72106, 72144), (72161, 72161),
     (72163, 72163), (72192, 72192), (72203, 72242), (72250, 72250), (72272, 72272),
     (72284, 72329), (72349, 72349), (72368, 72440), (72704, 72712), (72714, 72750),
     (72768, 72768), (72784, 72812), (72818, 72847), (72960, 72966), (72968, 72969),
     (72971, 73008), (73030, 73030), (73040, 73049), (73056, 73061), (73063, 73064),
     (73066, 73097), (73112, 73112), (73120, 73129), (73440, 73458), (73648, 73648),
     (73664, 73684), (73728, 74649), (74752, 74862), (74880, 75075), (77712, 77808),
     (77824, 78894), (82944, 83526), (92160, 92728), (92736, 92766), (92768, 92777),
     (92784, 92862), (92864, 92873), (92880, 92909), (92928, 92975), (92992, 92995),
     (93008, 93017), (93019, 93025), (93027, 93047), (93053, 93071), (93760, 93846),
     (93952, 94026), (94032, 94032), (94099, 94111), (94176, 94177), (94179, 94179),
     (94208, 100343), (100352, 101589), (101632, 101640), (110576, 110579), (110581, 110587),
     (110589, 110590), (110592, 110882), (110928, 110930), (110948, 110951), (110960, 111355),
     (113664, 113770), (113776, 113788), (113792, 113800), (113808, 113817), (119520, 119539),
     (119648, 119672), (119808, 119892), (119894, 119964), (119966, 119967), (119970, 119970),
     (119973, 119974), (119977, 119980), (119982, 119993), (119995, 119995), (119997, 120003),
     (120005, 120069), (120071, 120074), (120077, 120084), (120086, 120092), (120094, 120121),
     (120123, 120126), (120128, 120132), (120134, 120134), (120138, 120144), (120146, 120485),
     (120488, 120512), (120514, 120538), (120540, 120570), (120572, 120596), (120598, 120628),
     (120630, 120654), (120656, 120686), (120688, 120712), (120714, 120744), (120746, 120770),
     (120772, 120779), (120782, 120831), (122624, 122654), (123136, 123180), (123191, 123197),
     (123200, 123209), (123214, 123214), (123536, 123565), (123584, 123627), (123632, 123641),
     (124896, 124902), (124904, 124907), (124909, 124910), (124912, 124926), (124928, 125124),
     (125127, 125135), (125184, 125251), (125259, 125259), (125264, 125273), (126065, 126123),
     (126125, 126127), (126129, 126132), (126209, 126253), (126255, 126269), (126464, 126467),
     (126469, 126495), (126497, 126498), (126500, 126500), (126503, 126503), (126505, 126514),
     (126516, 126519), (126521, 126521), (126523, 126523), (126530, 126530), (126535, 126535),
     (126537, 126537), (126539, 126539), (126541, 126543), (126545, 126546), (126548, 126548),
     (126551, 126551), (126553, 126553), (126555, 126555), (126557, 126557), (126559, 126559),
     (126561, 126562), (126564, 126564), (126567, 126570), (126572, 126578), (126580, 126583),
     (126585, 126588), (126590, 126590), (126592, 126601), (126603, 126619), (126625, 126627),
     (126629, 126633), (126635, 126651), (127232, 127244), (130032, 130041), (131072, 173791),
     (173824, 177976), (177984, 178205), (178208, 183969), (183984, 191456), (194560, 195101),
     (196608, 201546)]"

definition is_word :: "nat \<Rightarrow> bool" where
  "is_word c \<longleftrightarrow> in_ranges c word_ranges"

text \<open>The characters with the property Uppercase: \<^verbatim>\<open>c.isupper()\<close> for one character.\<close>

definition uppercase_ranges :: "(nat \<times> nat \<times> nat) list" where
  "uppercase_ranges =
    [(65, 90, 1), (192, 214, 1), (216, 222, 1), (256, 310, 2), (313, 327, 2), (330, 374, 2),
     (376, 377, 1), (379, 381, 2), (385, 386, 1), (388, 388, 1), (390, 391, 1), (393, 395, 1),
     (398, 401, 1), (403, 404, 1), (406, 408, 1), (412, 413, 1), (415, 416, 1), (418, 420, 2),
     (422, 423, 1), (425, 425, 1), (428, 428, 1), (430, 431, 1), (433, 435, 1), (437, 437, 1),
     (439, 440, 1), (444, 444, 1), (452, 452, 1), (455, 455, 1), (458, 458, 1), (461, 475, 2),
     (478, 494, 2), (497, 497, 1), (500, 500, 1), (502, 504, 1), (506, 562, 2), (570, 571, 1),
     (573, 574, 1), (577, 577, 1), (579, 582, 1), (584, 590, 2), (880, 882, 2), (886, 886, 1),
     (895, 895, 1), (902, 902, 1), (904, 906, 1), (908, 908, 1), (910, 911, 1), (913, 929, 1),
     (931, 939, 1), (975, 975, 1), (978, 980, 1), (984, 1006, 2), (1012, 1012, 1),
     (1015, 1015, 1), (1017, 1018, 1), (1021, 1071, 1), (1120, 1152, 2), (1162, 1214, 2),
     (1216, 1217, 1), (1219, 1229, 2), (1232, 1326, 2), (1329, 1366, 1), (4256, 4293, 1),
     (4295, 4295, 1), (4301, 4301, 1), (5024, 5109, 1), (7312, 7354, 1), (7357, 7359, 1),
     (7680, 7828, 2), (7838, 7934, 2), (7944, 7951, 1), (7960, 7965, 1), (7976, 7983, 1),
     (7992, 7999, 1), (8008, 8013, 1), (8025, 8031, 2), (8040, 8047, 1), (8120, 8123, 1),
     (8136, 8139, 1), (8152, 8155, 1), (8168, 8172, 1), (8184, 8187, 1), (8450, 8450, 1),
     (8455, 8455, 1), (8459, 8461, 1), (8464, 8466, 1), (8469, 8469, 1), (8473, 8477, 1),
     (8484, 8488, 2), (8490, 8493, 1), (8496, 8499, 1), (8510, 8511, 1), (8517, 8517, 1),
     (8544, 8559, 1), (8579, 8579, 1), (9398, 9423, 1), (11264, 11311, 1), (11360, 11360, 1),
     (11362, 11364, 1), (11367, 11371, 2), (11373, 11376, 1), (11378, 11378, 1),
     (11381, 11381, 1), (11390, 11392, 1), (11394, 11490, 2), (11499, 11501, 2),
     (11506, 11506, 1), (42560, 42604, 2), (42624, 42650, 2), (42786, 42798, 2),
     (42802, 42862, 2), (42873, 42875, 2), (42877, 42878, 1), (42880, 42886, 2),
     (42891, 42893, 2), (42896, 42898, 2), (42902, 42920, 2), (42922, 42926, 1),
     (42928, 42932, 1), (42934, 42946, 2), (42948, 42951, 1), (42953, 42953, 1),
     (42960, 42960, 1), (42966, 42968, 2), (42997, 42997, 1), (65313, 65338, 1),
     (66560, 66599, 1), (66736, 66771, 1), (66928, 66938, 1), (66940, 66954, 1),
     (66956, 66962, 1), (66964, 66965, 1), (68736, 68786, 1), (71840, 71871, 1),
     (93760, 93791, 1), (119808, 119833, 1), (119860, 119885, 1), (119912, 119937, 1),
     (119964, 119964, 1), (119966, 119967, 1), (119970, 119970, 1), (119973, 119974, 1),
     (119977, 119980, 1), (119982, 119989, 1), (120016, 120041, 1), (120068, 120069, 1),
     (120071, 120074, 1), (120077, 120084, 1), (120086, 120092, 1), (120120, 120121, 1),
     (120123, 120126, 1), (120128, 120132, 1), (120134, 120134, 1), (120138, 120144, 1),
     (120172, 120197, 1), (120224, 120249, 1), (120276, 120301, 1), (120328, 120353, 1),
     (120380, 120405, 1), (120432, 120457, 1), (120488, 120512, 1), (120546, 120570, 1),
     (120604, 120628, 1), (120662, 120686, 1), (120720, 120744, 1), (120778, 120778, 1),
     (125184, 125217, 1), (127280, 127305, 1), (127312, 127337, 1), (127344, 127369, 1)]"

definition isupper :: "nat \<Rightarrow> bool" where
  "isupper c \<longleftrightarrow> in_strided c uppercase_ranges"

text \<open>
  \<^verbatim>\<open>str.upper\<close> maps each character on its own: most to one character (the runs),
  some to several (the special cases, such as U+00DF to \<^verbatim>\<open>SS\<close>), the rest to
  themselves.
\<close>

definition upper_runs :: "(nat \<times> nat \<times> nat \<times> nat) list" where
  "upper_runs =
    [(97, 122, 1, 65), (181, 181, 1, 924), (224, 246, 1, 192), (248, 254, 1, 216),
     (255, 255, 1, 376), (257, 303, 2, 256), (305, 305, 1, 73), (307, 311, 2, 306),
     (314, 328, 2, 313), (331, 375, 2, 330), (378, 382, 2, 377), (383, 383, 1, 83),
     (384, 384, 1, 579), (387, 389, 2, 386), (392, 392, 1, 391), (396, 396, 1, 395),
     (402, 402, 1, 401), (405, 405, 1, 502), (409, 409, 1, 408), (410, 410, 1, 573),
     (414, 414, 1, 544), (417, 421, 2, 416), (424, 424, 1, 423), (429, 429, 1, 428),
     (432, 432, 1, 431), (436, 438, 2, 435), (441, 441, 1, 440), (445, 445, 1, 444),
     (447, 447, 1, 503), (453, 453, 1, 452), (454, 454, 1, 452), (456, 456, 1, 455),
     (457, 457, 1, 455), (459, 459, 1, 458), (460, 460, 1, 458), (462, 476, 2, 461),
     (477, 477, 1, 398), (479, 495, 2, 478), (498, 498, 1, 497), (499, 499, 1, 497),
     (501, 501, 1, 500), (505, 543, 2, 504), (547, 563, 2, 546), (572, 572, 1, 571),
     (575, 576, 1, 11390), (578, 578, 1, 577), (583, 591, 2, 582), (592, 592, 1, 11375),
     (593, 593, 1, 11373), (594, 594, 1, 11376), (595, 595, 1, 385), (596, 596, 1, 390),
     (598, 599, 1, 393), (601, 601, 1, 399), (603, 603, 1, 400), (604, 604, 1, 42923),
     (608, 608, 1, 403), (609, 609, 1, 42924), (611, 611, 1, 404), (613, 613, 1, 42893),
     (614, 614, 1, 42922), (616, 616, 1, 407), (617, 617, 1, 406), (618, 618, 1, 42926),
     (619, 619, 1, 11362), (620, 620, 1, 42925), (623, 623, 1, 412), (625, 625, 1, 11374),
     (626, 626, 1, 413), (629, 629, 1, 415), (637, 637, 1, 11364), (640, 640, 1, 422),
     (642, 642, 1, 42949), (643, 643, 1, 425), (647, 647, 1, 42929), (648, 648, 1, 430),
     (649, 649, 1, 580), (650, 651, 1, 433), (652, 652, 1, 581), (658, 658, 1, 439),
     (669, 669, 1, 42930), (670, 670, 1, 42928), (837, 837, 1, 921), (881, 883, 2, 880),
     (887, 887, 1, 886), (891, 893, 1, 1021), (940, 940, 1, 902), (941, 943, 1, 904),
     (945, 961, 1, 913), (962, 962, 1, 931), (963, 971, 1, 931), (972, 972, 1, 908),
     (973, 974, 1, 910), (976, 976, 1, 914), (977, 977, 1, 920), (981, 981, 1, 934),
     (982, 982, 1, 928), (983, 983, 1, 975), (985, 1007, 2, 984), (1008, 1008, 1, 922),
     (1009, 1009, 1, 929), (1010, 1010, 1, 1017), (1011, 1011, 1, 895), (1013, 1013, 1, 917),
     (1016, 1016, 1, 1015), (1019, 1019, 1, 1018), (1072, 1103, 1, 1040),
     (1104, 1119, 1, 1024), (1121, 1153, 2, 1120), (1163, 1215, 2, 1162),
     (1218, 1230, 2, 1217), (1231, 1231, 1, 1216), (1233, 1327, 2, 1232),
     (1377, 1414, 1, 1329), (4304, 4346, 1, 7312), (4349, 4351, 1, 7357),
     (5112, 5117, 1, 5104), (7296, 7296, 1, 1042), (7297, 7297, 1, 1044),
     (7298, 7298, 1, 1054), (7299, 7300, 1, 1057), (7301, 7301, 1, 1058),
     (7302, 7302, 1, 1066), (7303, 7303, 1, 1122), (7304, 7304, 1, 42570),
     (7545, 7545, 1, 42877), (7549, 7549, 1, 11363), (7566, 7566, 1, 42950),
     (7681, 7829, 2, 7680), (7835, 7835, 1, 7776), (7841, 7935, 2, 7840),
     (7936, 7943, 1, 7944), (7952, 7957, 1, 7960), (7968, 7975, 1, 7976),
     (7984, 7991, 1, 7992), (8000, 8005, 1, 8008), (8017, 8023, 2, 8025),
     (8032, 8039, 1, 8040), (8048, 8049, 1, 8122), (8050, 8053, 1, 8136),
     (8054, 8055, 1, 8154), (8056, 8057, 1, 8184), (8058, 8059, 1, 8170),
     (8060, 8061, 1, 8186), (8112, 8113, 1, 8120), (8126, 8126, 1, 921), (8144, 8145, 1, 8152),
     (8160, 8161, 1, 8168), (8165, 8165, 1, 8172), (8526, 8526, 1, 8498),
     (8560, 8575, 1, 8544), (8580, 8580, 1, 8579), (9424, 9449, 1, 9398),
     (11312, 11359, 1, 11264), (11361, 11361, 1, 11360), (11365, 11365, 1, 570),
     (11366, 11366, 1, 574), (11368, 11372, 2, 11367), (11379, 11379, 1, 11378),
     (11382, 11382, 1, 11381), (11393, 11491, 2, 11392), (11500, 11502, 2, 11499),
     (11507, 11507, 1, 11506), (11520, 11557, 1, 4256), (11559, 11559, 1, 4295),
     (11565, 11565, 1, 4301), (42561, 42605, 2, 42560), (42625, 42651, 2, 42624),
     (42787, 42799, 2, 42786), (42803, 42863, 2, 42802), (42874, 42876, 2, 42873),
     (42879, 42887, 2, 42878), (42892, 42892, 1, 42891), (42897, 42899, 2, 42896),
     (42900, 42900, 1, 42948), (42903, 42921, 2, 42902), (42933, 42947, 2, 42932),
     (42952, 42954, 2, 42951), (42961, 42961, 1, 42960), (42967, 42969, 2, 42966),
     (42998, 42998, 1, 42997), (43859, 43859, 1, 42931), (43888, 43967, 1, 5024),
     (65345, 65370, 1, 65313), (66600, 66639, 1, 66560), (66776, 66811, 1, 66736),
     (66967, 66977, 1, 66928), (66979, 66993, 1, 66940), (66995, 67001, 1, 66956),
     (67003, 67004, 1, 66964), (68800, 68850, 1, 68736), (71872, 71903, 1, 71840),
     (93792, 93823, 1, 93760), (125218, 125251, 1, 125184)]"

definition upper_special :: "(nat \<times> str) list" where
  "upper_special =
    [(223, [83, 83]), (329, [700, 78]), (496, [74, 780]), (912, [921, 776, 769]),
     (944, [933, 776, 769]), (1415, [1333, 1362]), (7830, [72, 817]), (7831, [84, 776]),
     (7832, [87, 778]), (7833, [89, 778]), (7834, [65, 702]), (8016, [933, 787]),
     (8018, [933, 787, 768]), (8020, [933, 787, 769]), (8022, [933, 787, 834]),
     (8064, [7944, 921]), (8065, [7945, 921]), (8066, [7946, 921]), (8067, [7947, 921]),
     (8068, [7948, 921]), (8069, [7949, 921]), (8070, [7950, 921]), (8071, [7951, 921]),
     (8072, [7944, 921]), (8073, [7945, 921]), (8074, [7946, 921]), (8075, [7947, 921]),
     (8076, [7948, 921]), (8077, [7949, 921]), (8078, [7950, 921]), (8079, [7951, 921]),
     (8080, [7976, 921]), (8081, [7977, 921]), (8082, [7978, 921]), (8083, [7979, 921]),
     (8084, [7980, 921]), (8085, [7981, 921]), (8086, [7982, 921]), (8087, [7983, 921]),
     (8088, [7976, 921]), (8089, [7977, 921]), (8090, [7978, 921]), (8091, [7979, 921]),
     (8092, [7980, 921]), (8093, [7981, 921]), (8094, [7982, 921]), (8095, [7983, 921]),
     (8096, [8040, 921]), (8097, [8041, 921]), (8098, [8042, 921]), (8099, [8043, 921]),
     (8100, [8044, 921]), (8101, [8045, 921]), (8102, [8046, 921]), (8103, [8047, 921]),
     (8104, [8040, 921]), (8105, [8041, 921]), (8106, [8042, 921]), (8107, [8043, 921]),
     (8108, [8044, 921]), (8109, [8045, 921]), (8110, [8046, 921]), (8111, [8047, 921]),
     (8114, [8122, 921]), (8115, [913, 921]), (8116, [902, 921]), (8118, [913, 834]),
     (8119, [913, 834, 921]), (8124, [913, 921]), (8130, [8138, 921]), (8131, [919, 921]),
     (8132, [905, 921]), (8134, [919, 834]), (8135, [919, 834, 921]), (8140, [919, 921]),
     (8146, [921, 776, 768]), (8147, [921, 776, 769]), (8150, [921, 834]),
     (8151, [921, 776, 834]), (8162, [933, 776, 768]), (8163, [933, 776, 769]),
     (8164, [929, 787]), (8166, [933, 834]), (8167, [933, 776, 834]), (8178, [8186, 921]),
     (8179, [937, 921]), (8180, [911, 921]), (8182, [937, 834]), (8183, [937, 834, 921]),
     (8188, [937, 921]), (64256, [70, 70]), (64257, [70, 73]), (64258, [70, 76]),
     (64259, [70, 70, 73]), (64260, [70, 70, 76]), (64261, [83, 84]), (64262, [83, 84]),
     (64275, [1348, 1350]), (64276, [1348, 1333]), (64277, [1348, 1339]),
     (64278, [1358, 1350]), (64279, [1348, 1341])]"

definition upper_char :: "nat \<Rightarrow> str" where
  "upper_char c =
     (case map_run c upper_runs of
        Some d \<Rightarrow> [d]
      | None \<Rightarrow> (case lookup_sorted c upper_special of Some s \<Rightarrow> s | None \<Rightarrow> [c]))"

definition upper :: "str \<Rightarrow> str" where
  "upper s = concat (map upper_char s)"

text \<open>
  \<^verbatim>\<open>str.lower\<close> maps each character on its own too, except the capital sigma
  U+03A3: it becomes the final small sigma U+03C2 when a cased character comes before it
  and none comes after it, skipping the case-ignorable characters on both sides, and the
  small sigma U+03C3 otherwise.
\<close>

definition lower_runs :: "(nat \<times> nat \<times> nat \<times> nat) list" where
  "lower_runs =
    [(65, 90, 1, 97), (192, 214, 1, 224), (216, 222, 1, 248), (256, 302, 2, 257),
     (306, 310, 2, 307), (313, 327, 2, 314), (330, 374, 2, 331), (376, 376, 1, 255),
     (377, 381, 2, 378), (385, 385, 1, 595), (386, 388, 2, 387), (390, 390, 1, 596),
     (391, 391, 1, 392), (393, 394, 1, 598), (395, 395, 1, 396), (398, 398, 1, 477),
     (399, 399, 1, 601), (400, 400, 1, 603), (401, 401, 1, 402), (403, 403, 1, 608),
     (404, 404, 1, 611), (406, 406, 1, 617), (407, 407, 1, 616), (408, 408, 1, 409),
     (412, 412, 1, 623), (413, 413, 1, 626), (415, 415, 1, 629), (416, 420, 2, 417),
     (422, 422, 1, 640), (423, 423, 1, 424), (425, 425, 1, 643), (428, 428, 1, 429),
     (430, 430, 1, 648), (431, 431, 1, 432), (433, 434, 1, 650), (435, 437, 2, 436),
     (439, 439, 1, 658), (440, 440, 1, 441), (444, 444, 1, 445), (452, 452, 1, 454),
     (453, 453, 1, 454), (455, 455, 1, 457), (456, 456, 1, 457), (458, 458, 1, 460),
     (459, 475, 2, 460), (478, 494, 2, 479), (497, 497, 1, 499), (498, 500, 2, 499),
     (502, 502, 1, 405), (503, 503, 1, 447), (504, 542, 2, 505), (544, 544, 1, 414),
     (546, 562, 2, 547), (570, 570, 1, 11365), (571, 571, 1, 572), (573, 573, 1, 410),
     (574, 574, 1, 11366), (577, 577, 1, 578), (579, 579, 1, 384), (580, 580, 1, 649),
     (581, 581, 1, 652), (582, 590, 2, 583), (880, 882, 2, 881), (886, 886, 1, 887),
     (895, 895, 1, 1011), (902, 902, 1, 940), (904, 906, 1, 941), (908, 908, 1, 972),
     (910, 911, 1, 973), (913, 929, 1, 945), (931, 939, 1, 963), (975, 975, 1, 983),
     (984, 1006, 2, 985), (1012, 1012, 1, 952), (1015, 1015, 1, 1016), (1017, 1017, 1, 1010),
     (1018, 1018, 1, 1019), (1021, 1023, 1, 891), (1024, 1039, 1, 1104), (1040, 1071, 1, 1072),
     (1120, 1152, 2, 1121), (1162, 1214, 2, 1163), (1216, 1216, 1, 1231),
     (1217, 1229, 2, 1218), (1232, 1326, 2, 1233), (1329, 1366, 1, 1377),
     (4256, 4293, 1, 11520), (4295, 4295, 1, 11559), (4301, 4301, 1, 11565),
     (5024, 5103, 1, 43888), (5104, 5109, 1, 5112), (7312, 7354, 1, 4304),
     (7357, 7359, 1, 4349), (7680, 7828, 2, 7681), (7838, 7838, 1, 223), (7840, 7934, 2, 7841),
     (7944, 7951, 1, 7936), (7960, 7965, 1, 7952), (7976, 7983, 1, 7968),
     (7992, 7999, 1, 7984), (8008, 8013, 1, 8000), (8025, 8031, 2, 8017),
     (8040, 8047, 1, 8032), (8072, 8079, 1, 8064), (8088, 8095, 1, 8080),
     (8104, 8111, 1, 8096), (8120, 8121, 1, 8112), (8122, 8123, 1, 8048),
     (8124, 8124, 1, 8115), (8136, 8139, 1, 8050), (8140, 8140, 1, 8131),
     (8152, 8153, 1, 8144), (8154, 8155, 1, 8054), (8168, 8169, 1, 8160),
     (8170, 8171, 1, 8058), (8172, 8172, 1, 8165), (8184, 8185, 1, 8056),
     (8186, 8187, 1, 8060), (8188, 8188, 1, 8179), (8486, 8486, 1, 969), (8490, 8490, 1, 107),
     (8491, 8491, 1, 229), (8498, 8498, 1, 8526), (8544, 8559, 1, 8560), (8579, 8579, 1, 8580),
     (9398, 9423, 1, 9424), (11264, 11311, 1, 11312), (11360, 11360, 1, 11361),
     (11362, 11362, 1, 619), (11363, 11363, 1, 7549), (11364, 11364, 1, 637),
     (11367, 11371, 2, 11368), (11373, 11373, 1, 593), (11374, 11374, 1, 625),
     (11375, 11375, 1, 592), (11376, 11376, 1, 594), (11378, 11378, 1, 11379),
     (11381, 11381, 1, 11382), (11390, 11391, 1, 575), (11392, 11490, 2, 11393),
     (11499, 11501, 2, 11500), (11506, 11506, 1, 11507), (42560, 42604, 2, 42561),
     (42624, 42650, 2, 42625), (42786, 42798, 2, 42787), (42802, 42862, 2, 42803),
     (42873, 42875, 2, 42874), (42877, 42877, 1, 7545), (42878, 42886, 2, 42879),
     (42891, 42891, 1, 42892), (42893, 42893, 1, 613), (42896, 42898, 2, 42897),
     (42902, 42920, 2, 42903), (42922, 42922, 1, 614), (42923, 42923, 1, 604),
     (42924, 42924, 1, 609), (42925, 42925, 1, 620), (42926, 42926, 1, 618),
     (42928, 42928, 1, 670), (42929, 42929, 1, 647), (42930, 42930, 1, 669),
     (42931, 42931, 1, 43859), (42932, 42946, 2, 42933), (42948, 42948, 1, 42900),
     (42949, 42949, 1, 642), (42950, 42950, 1, 7566), (42951, 42953, 2, 42952),
     (42960, 42960, 1, 42961), (42966, 42968, 2, 42967), (42997, 42997, 1, 42998),
     (65313, 65338, 1, 65345), (66560, 66599, 1, 66600), (66736, 66771, 1, 66776),
     (66928, 66938, 1, 66967), (66940, 66954, 1, 66979), (66956, 66962, 1, 66995),
     (66964, 66965, 1, 67003), (68736, 68786, 1, 68800), (71840, 71871, 1, 71872),
     (93760, 93791, 1, 93792), (125184, 125217, 1, 125218)]"

definition lower_special :: "(nat \<times> str) list" where
  "lower_special =
    [(304, [105, 775])]"

definition lower_char :: "nat \<Rightarrow> str" where
  "lower_char c =
     (case map_run c lower_runs of
        Some d \<Rightarrow> [d]
      | None \<Rightarrow> (case lookup_sorted c lower_special of Some s \<Rightarrow> s | None \<Rightarrow> [c]))"

definition cased_ranges :: "(nat \<times> nat \<times> nat) list" where
  "cased_ranges =
    [(65, 90, 1), (97, 122, 1), (170, 170, 1), (181, 181, 1), (186, 186, 1), (192, 214, 1),
     (216, 246, 1), (248, 442, 1), (444, 447, 1), (452, 659, 1), (661, 696, 1), (704, 705, 1),
     (736, 740, 1), (837, 837, 1), (880, 883, 1), (886, 887, 1), (890, 893, 1), (895, 895, 1),
     (902, 902, 1), (904, 906, 1), (908, 908, 1), (910, 929, 1), (931, 1013, 1),
     (1015, 1153, 1), (1162, 1327, 1), (1329, 1366, 1), (1376, 1416, 1), (4256, 4293, 1),
     (4295, 4295, 1), (4301, 4301, 1), (4304, 4346, 1), (4349, 4351, 1), (5024, 5109, 1),
     (5112, 5117, 1), (7296, 7304, 1), (7312, 7354, 1), (7357, 7359, 1), (7424, 7615, 1),
     (7680, 7957, 1), (7960, 7965, 1), (7968, 8005, 1), (8008, 8013, 1), (8016, 8023, 1),
     (8025, 8029, 2), (8031, 8061, 1), (8064, 8116, 1), (8118, 8124, 1), (8126, 8126, 1),
     (8130, 8132, 1), (8134, 8140, 1), (8144, 8147, 1), (8150, 8155, 1), (8160, 8172, 1),
     (8178, 8180, 1), (8182, 8188, 1), (8305, 8305, 1), (8319, 8319, 1), (8336, 8348, 1),
     (8450, 8450, 1), (8455, 8455, 1), (8458, 8467, 1), (8469, 8469, 1), (8473, 8477, 1),
     (8484, 8488, 2), (8490, 8493, 1), (8495, 8500, 1), (8505, 8505, 1), (8508, 8511, 1),
     (8517, 8521, 1), (8526, 8526, 1), (8544, 8575, 1), (8579, 8580, 1), (9398, 9449, 1),
     (11264, 11492, 1), (11499, 11502, 1), (11506, 11507, 1), (11520, 11557, 1),
     (11559, 11559, 1), (11565, 11565, 1), (42560, 42605, 1), (42624, 42653, 1),
     (42786, 42887, 1), (42891, 42894, 1), (42896, 42954, 1), (42960, 42961, 1),
     (42963, 42963, 1), (42965, 42969, 1), (42997, 42998, 1), (43000, 43002, 1),
     (43824, 43866, 1), (43868, 43880, 1), (43888, 43967, 1), (64256, 64262, 1),
     (64275, 64279, 1), (65313, 65338, 1), (65345, 65370, 1), (66560, 66639, 1),
     (66736, 66771, 1), (66776, 66811, 1), (66928, 66938, 1), (66940, 66954, 1),
     (66956, 66962, 1), (66964, 66965, 1), (66967, 66977, 1), (66979, 66993, 1),
     (66995, 67001, 1), (67003, 67004, 1), (67456, 67456, 1), (67459, 67461, 1),
     (67463, 67504, 1), (67506, 67514, 1), (68736, 68786, 1), (68800, 68850, 1),
     (71840, 71903, 1), (93760, 93823, 1), (119808, 119892, 1), (119894, 119964, 1),
     (119966, 119967, 1), (119970, 119970, 1), (119973, 119974, 1), (119977, 119980, 1),
     (119982, 119993, 1), (119995, 119995, 1), (119997, 120003, 1), (120005, 120069, 1),
     (120071, 120074, 1), (120077, 120084, 1), (120086, 120092, 1), (120094, 120121, 1),
     (120123, 120126, 1), (120128, 120132, 1), (120134, 120134, 1), (120138, 120144, 1),
     (120146, 120485, 1), (120488, 120512, 1), (120514, 120538, 1), (120540, 120570, 1),
     (120572, 120596, 1), (120598, 120628, 1), (120630, 120654, 1), (120656, 120686, 1),
     (120688, 120712, 1), (120714, 120744, 1), (120746, 120770, 1), (120772, 120779, 1),
     (122624, 122633, 1), (122635, 122654, 1), (125184, 125251, 1), (127280, 127305, 1),
     (127312, 127337, 1), (127344, 127369, 1)]"

definition case_ignorable_ranges :: "(nat \<times> nat) list" where
  "case_ignorable_ranges =
    [(39, 39), (46, 46), (58, 58), (94, 94), (96, 96), (168, 168), (173, 173), (175, 175),
     (180, 180), (183, 184), (688, 879), (884, 885), (890, 890), (900, 901), (903, 903),
     (1155, 1161), (1369, 1369), (1375, 1375), (1425, 1469), (1471, 1471), (1473, 1474),
     (1476, 1477), (1479, 1479), (1524, 1524), (1536, 1541), (1552, 1562), (1564, 1564),
     (1600, 1600), (1611, 1631), (1648, 1648), (1750, 1757), (1759, 1768), (1770, 1773),
     (1807, 1807), (1809, 1809), (1840, 1866), (1958, 1968), (2027, 2037), (2042, 2042),
     (2045, 2045), (2070, 2093), (2137, 2139), (2184, 2184), (2192, 2193), (2200, 2207),
     (2249, 2306), (2362, 2362), (2364, 2364), (2369, 2376), (2381, 2381), (2385, 2391),
     (2402, 2403), (2417, 2417), (2433, 2433), (2492, 2492), (2497, 2500), (2509, 2509),
     (2530, 2531), (2558, 2558), (2561, 2562), (2620, 2620), (2625, 2626), (2631, 2632),
     (2635, 2637), (2641, 2641), (2672, 2673), (2677, 2677), (2689, 2690), (2748, 2748),
     (2753, 2757), (2759, 2760), (2765, 2765), (2786, 2787), (2810, 2815), (2817, 2817),
     (2876, 2876), (2879, 2879), (2881, 2884), (2893, 2893), (2901, 2902), (2914, 2915),
     (2946, 2946), (3008, 3008), (3021, 3021), (3072, 3072), (3076, 3076), (3132, 3132),
     (3134, 3136), (3142, 3144), (3146, 3149), (3157, 3158), (3170, 3171), (3201, 3201),
     (3260, 3260), (3263, 3263), (3270, 3270), (3276, 3277), (3298, 3299), (3328, 3329),
     (3387, 3388), (3393, 3396), (3405, 3405), (3426, 3427), (3457, 3457), (3530, 3530),
     (3538, 3540), (3542, 3542), (3633, 3633), (3636, 3642), (3654, 3662), (3761, 3761),
     (3764, 3772), (3782, 3782), (3784, 3789), (3864, 3865), (3893, 3893), (3895, 3895),
     (3897, 3897), (3953, 3966), (3968, 3972), (3974, 3975), (3981, 3991), (3993, 4028),
     (4038, 4038), (4141, 4144), (4146, 4151), (4153, 4154), (4157, 4158), (4184, 4185),
     (4190, 4192), (4209, 4212), (4226, 4226), (4229, 4230), (4237, 4237), (4253, 4253),
     (4348, 4348), (4957, 4959), (5906, 5908), (5938, 5939), (5970, 5971), (6002, 6003),
     (6068, 6069), (6071, 6077), (6086, 6086), (6089, 6099), (6103, 6103), (6109, 6109),
     (6155, 6159), (6211, 6211), (6277, 6278), (6313, 6313), (6432, 6434), (6439, 6440),
     (6450, 6450), (6457, 6459), (6679, 6680), (6683, 6683), (6742, 6742), (6744, 6750),
     (6752, 6752), (6754, 6754), (6757, 6764), (6771, 6780), (6783, 6783), (6823, 6823),
     (6832, 6862), (6912, 6915), (6964, 6964), (6966, 6970), (6972, 6972), (6978, 6978),
     (7019, 7027), (7040, 7041), (7074, 7077), (7080, 7081), (7083, 7085), (7142, 7142),
     (7144, 7145), (7149, 7149), (7151, 7153), (7212, 7219), (7222, 7223), (7288, 7293),
     (7376, 7378), (7380, 7392), (7394, 7400), (7405, 7405), (7412, 7412), (7416, 7417),
     (7468, 7530), (7544, 7544), (7579, 7679), (8125, 8125), (8127, 8129), (8141, 8143),
     (8157, 8159), (8173, 8175), (8189, 8190), (8203, 8207), (8216, 8217), (8228, 8228),
     (8231, 8231), (8234, 8238), (8288, 8292), (8294, 8303), (8305, 8305), (8319, 8319),
     (8336, 8348), (8400, 8432), (11388, 11389), (11503, 11505), (11631, 11631),
     (11647, 11647), (11744, 11775), (11823, 11823), (12293, 12293), (12330, 12333),
     (12337, 12341), (12347, 12347), (12441, 12446), (12540, 12542), (40981, 40981),
     (42232, 42237), (42508, 42508), (42607, 42610), (42612, 42621), (42623, 42623),
     (42652, 42655), (42736, 42737), (42752, 42785), (42864, 42864), (42888, 42890),
     (42994, 42996), (43000, 43001), (43010, 43010), (43014, 43014), (43019, 43019),
     (43045, 43046), (43052, 43052), (43204, 43205), (43232, 43249), (43263, 43263),
     (43302, 43309), (43335, 43345), (43392, 43394), (43443, 43443), (43446, 43449),
     (43452, 43453), (43471, 43471), (43493, 43494), (43561, 43566), (43569, 43570),
     (43573, 43574), (43587, 43587), (43596, 43596), (43632, 43632), (43644, 43644),
     (43696, 43696), (43698, 43700), (43703, 43704), (43710, 43711), (43713, 43713),
     (43741, 43741), (43756, 43757), (43763, 43764), (43766, 43766), (43867, 43871),
     (43881, 43883), (44005, 44005), (44008, 44008), (44013, 44013), (64286, 64286),
     (64434, 64450), (65024, 65039), (65043, 65043), (65056, 65071), (65106, 65106),
     (65109, 65109), (65279, 65279), (65287, 65287), (65294, 65294), (65306, 65306),
     (65342, 65342), (65344, 65344), (65392, 65392), (65438, 65439), (65507, 65507),
     (65529, 65531), (66045, 66045), (66272, 66272), (66422, 66426), (67456, 67461),
     (67463, 67504), (67506, 67514), (68097, 68099), (68101, 68102), (68108, 68111),
     (68152, 68154), (68159, 68159), (68325, 68326), (68900, 68903), (69291, 69292),
     (69446, 69456), (69506, 69509), (69633, 69633), (69688, 69702), (69744, 69744),
     (69747, 69748), (69759, 69761), (69811, 69814), (69817, 69818), (69821, 69821),
     (69826, 69826), (69837, 69837), (69888, 69890), (69927, 69931), (69933, 69940),
     (70003, 70003), (70016, 70017), (70070, 70078), (70089, 70092), (70095, 70095),
     (70191, 70193), (70196, 70196), (70198, 70199), (70206, 70206), (70367, 70367),
     (70371, 70378), (70400, 70401), (70459, 70460), (70464, 70464), (70502, 70508),
     (70512, 70516), (70712, 70719), (70722, 70724), (70726, 70726), (70750, 70750),
     (70835, 70840), (70842, 70842), (70847, 70848), (70850, 70851), (71090, 71093),
     (71100, 71101), (71103, 71104), (71132, 71133), (71219, 71226), (71229, 71229),
     (71231, 71232), (71339, 71339), (71341, 71341), (71344, 71349), (71351, 71351),
     (71453, 71455), (71458, 71461), (71463, 71467), (71727, 71735), (71737, 71738),
     (71995, 71996), (71998, 71998), (72003, 72003), (72148, 72151), (72154, 72155),
     (72160, 72160), (72193, 72202), (72243, 72248), (72251, 72254), (72263, 72263),
     (72273, 72278), (72281, 72283), (72330, 72342), (72344, 72345), (72752, 72758),
     (72760, 72765), (72767, 72767), (72850, 72871), (72874, 72880), (72882, 72883),
     (72885, 72886), (73009, 73014), (73018, 73018), (73020, 73021), (73023, 73029),
     (73031, 73031), (73104, 73105), (73109, 73109), (73111, 73111), (73459, 73460),
     (78896, 78904), (92912, 92916), (92976, 92982), (92992, 92995), (94031, 94031),
     (94095, 94111), (94176, 94177), (94179, 94180), (110576, 110579), (110581, 110587),
     (110589, 110590), (113821, 113822), (113824, 113827), (118528, 118573), (118576, 118598),
     (119143, 119145), (119155, 119170), (119173, 119179), (119210, 119213), (119362, 119364),
     (121344, 121398), (121403, 121452), (121461, 121461), (121476, 121476), (121499, 121503),
     (121505, 121519), (122880, 122886), (122888, 122904), (122907, 122913), (122915, 122916),
     (122918, 122922), (123184, 123197), (123566, 123566), (123628, 123631), (125136, 125142),
     (125252, 125259), (127995, 127999), (917505, 917505), (917536, 917631), (917760, 917999)]"

definition cased :: "nat \<Rightarrow> bool" where
  "cased c \<longleftrightarrow> in_strided c cased_ranges"

definition case_ignorable :: "nat \<Rightarrow> bool" where
  "case_ignorable c \<longleftrightarrow> in_ranges c case_ignorable_ranges"

text \<open>The nearest character that is not case-ignorable exists and is cased.\<close>

definition cased_next :: "str \<Rightarrow> bool" where
  "cased_next s = (case dropWhile case_ignorable s of [] \<Rightarrow> False | c # _ \<Rightarrow> cased c)"

text \<open>\<open>before\<close> is the text already read, the nearest character first.\<close>

fun lower_from :: "str \<Rightarrow> str \<Rightarrow> str" where
  "lower_from before [] = []"
| "lower_from before (c # cs) =
     (if c = 931 then [if cased_next before \<and> \<not> cased_next cs then 962 else 963]
      else lower_char c) @ lower_from (c # before) cs"

definition lower :: "str \<Rightarrow> str" where
  "lower s = lower_from [] s"

text \<open>\<^verbatim>\<open>s.strip()\<close>, \<^verbatim>\<open>s.rstrip(',')\<close> and \<^verbatim>\<open>s.split()\<close>.\<close>

definition lstrip :: "str \<Rightarrow> str" where
  "lstrip s = dropWhile isspace s"

definition rstrip :: "str \<Rightarrow> str" where
  "rstrip s = rev (dropWhile isspace (rev s))"

definition strip :: "str \<Rightarrow> str" where
  "strip s = rstrip (lstrip s)"

definition rstrip_char :: "nat \<Rightarrow> str \<Rightarrow> str" where
  "rstrip_char d s = rev (dropWhile (\<lambda>c. c = d) (rev s))"

fun tokens :: "str \<Rightarrow> str \<Rightarrow> str list" where
  "tokens acc [] = (if acc = [] then [] else [rev acc])"
| "tokens acc (c # cs) =
     (if isspace c then (if acc = [] then tokens [] cs else rev acc # tokens [] cs)
      else tokens (c # acc) cs)"

definition split_ws :: "str \<Rightarrow> str list" where
  "split_ws s = tokens [] s"

text \<open>
  \<^verbatim>\<open>s.split(sep)\<close> for a separator string: the pieces between the occurrences of
  \<open>sep\<close>, found left to right. Python raises \<^verbatim>\<open>ValueError\<close> on an empty separator;
  the program only ever passes literals, and the model returns the string whole there.
\<close>

fun split_acc :: "str \<Rightarrow> str \<Rightarrow> str \<Rightarrow> str list" where
  "split_acc sep acc [] = [rev acc]"
| "split_acc sep acc (c # cs) =
     (if sep \<noteq> [] \<and> prefix sep (c # cs)
      then rev acc # split_acc sep [] (drop (length sep) (c # cs))
      else split_acc sep (c # acc) cs)"

definition split_on :: "str \<Rightarrow> str \<Rightarrow> str list" where
  "split_on sep s = split_acc sep [] s"

definition slice :: "str \<Rightarrow> nat \<Rightarrow> nat \<Rightarrow> str" where
  "slice s a b = take (b - a) (drop a s)"

section \<open>Regular expressions\<close>

text \<open>
  The patterns of the program are values of the type \<open>regex\<close>, and \<open>rmatch\<close> is a
  backtracking matcher in the style of Python's \<^verbatim>\<open>re\<close>: from a position it returns
  every way the pattern can match, most preferred first (a greedy repetition tries one
  more iteration before it stops, an alternation tries its left branch first), so the
  head of the list is the match Python reports. A state is the position, the text from
  there on, and the groups captured so far (the latest first).

  \<open>Rep lo hi r\<close> is \<^verbatim>\<open>r{lo,hi}\<close> (\<open>hi = None\<close>: unbounded). An iteration that
  consumes nothing is dropped, so the number of iterations is bounded by the length of
  the remaining text; no repeated pattern of the program can match the empty string.
  \<open>Eol\<close> is \<^verbatim>\<open>$\<close> without the MULTILINE flag: the end of the text, or just before
  a newline that ends it. \<open>Bol\<close> is \<^verbatim>\<open>^\<close>.
\<close>

datatype regex =
    Lit nat
  | Cls "nat \<Rightarrow> bool"
  | Cat regex regex
  | Alt regex regex
  | Rep nat "nat option" regex
  | Grp nat regex
  | NLook regex
  | Bol
  | Eol
  | Eps

type_synonym captures = "(nat \<times> nat \<times> nat) list"

type_synonym mstate = "nat \<times> str \<times> captures"

fun rep :: "nat \<Rightarrow> nat \<Rightarrow> nat option \<Rightarrow> (mstate \<Rightarrow> mstate list) \<Rightarrow> mstate \<Rightarrow> mstate list" where
  "rep 0 lo hi f st = (if lo = 0 then [st] else [])"
| "rep (Suc n) lo hi f st =
     (if hi = Some 0 then (if lo = 0 then [st] else [])
      else concat (map (rep n (lo - 1) (map_option (\<lambda>h. h - 1) hi) f)
                       (filter (\<lambda>st'. fst st < fst st') (f st)))
           @ (if lo = 0 then [st] else []))"

primrec rmatch :: "regex \<Rightarrow> mstate \<Rightarrow> mstate list" where
  "rmatch (Lit c) = (\<lambda>(p, rest, caps).
     case rest of [] \<Rightarrow> [] | x # xs \<Rightarrow> if x = c then [(Suc p, xs, caps)] else [])"
| "rmatch (Cls P) = (\<lambda>(p, rest, caps).
     case rest of [] \<Rightarrow> [] | x # xs \<Rightarrow> if P x then [(Suc p, xs, caps)] else [])"
| "rmatch (Cat a b) = (\<lambda>st. concat (map (rmatch b) (rmatch a st)))"
| "rmatch (Alt a b) = (\<lambda>st. rmatch a st @ rmatch b st)"
| "rmatch (Rep lo hi r) = (\<lambda>st. rep (length (fst (snd st))) lo hi (rmatch r) st)"
| "rmatch (Grp k r) = (\<lambda>st.
     map (\<lambda>(p', rest', caps'). (p', rest', (k, fst st, p') # caps')) (rmatch r st))"
| "rmatch (NLook r) = (\<lambda>st. if rmatch r st = [] then [st] else [])"
| "rmatch Bol = (\<lambda>st. if fst st = 0 then [st] else [])"
| "rmatch Eol = (\<lambda>st. if fst (snd st) = [] \<or> fst (snd st) = [10] then [st] else [])"
| "rmatch Eps = (\<lambda>st. [st])"

abbreviation Star :: "regex \<Rightarrow> regex" where
  "Star r \<equiv> Rep 0 None r"

abbreviation Plus :: "regex \<Rightarrow> regex" where
  "Plus r \<equiv> Rep 1 None r"

abbreviation Opt :: "regex \<Rightarrow> regex" where
  "Opt r \<equiv> Rep 0 (Some 1) r"

abbreviation Times :: "nat \<Rightarrow> regex \<Rightarrow> regex" where
  "Times n r \<equiv> Rep n (Some n) r"

text \<open>A literal word.\<close>

definition word :: "string \<Rightarrow> regex" where
  "word s = foldr (\<lambda>c r. Cat (Lit (of_char c)) r) s Eps"

text \<open>
  Under \<^verbatim>\<open>re.IGNORECASE\<close> an ASCII letter of a pattern matches itself in both
  cases, and \<^verbatim>\<open>i\<close>, \<^verbatim>\<open>s\<close> and \<^verbatim>\<open>k\<close> also match the letters that Unicode
  case folding identifies with them: U+0130 and U+0131, U+017F, and U+212A. Any other
  ASCII character matches only itself. (The one pattern of the program that carries the
  flag is ASCII.)
\<close>

definition ignorecase :: "nat \<Rightarrow> nat \<Rightarrow> bool" where
  "ignorecase c x \<longleftrightarrow>
     x = c \<or> (is_az c \<and> x + 32 = c) \<or> (is_AZ c \<and> x = c + 32) \<or>
     ((c = 105 \<or> c = 73) \<and> (x = 304 \<or> x = 305)) \<or>
     ((c = 115 \<or> c = 83) \<and> x = 383) \<or>
     ((c = 107 \<or> c = 75) \<and> x = 8490)"

definition iword :: "string \<Rightarrow> regex" where
  "iword s = foldr (\<lambda>c r. Cat (Cls (ignorecase (of_char c))) r) s Eps"

text \<open>
  A match is its start, its end and its groups. \<open>re_match\<close> matches at the start of the
  text, \<open>re_search\<close> at the leftmost position where the pattern matches, and
  \<open>finditer\<close> lists the non-overlapping matches from left to right, resuming at the end
  of each. (After an empty match Python resumes one character on; the patterns of the
  program never match the empty string.)
\<close>

type_synonym rmatched = "nat \<times> nat \<times> captures"

definition match_at :: "regex \<Rightarrow> nat \<Rightarrow> str \<Rightarrow> rmatched option" where
  "match_at r p rest =
     (case rmatch r (p, rest, []) of [] \<Rightarrow> None | (e, _, caps) # _ \<Rightarrow> Some (p, e, caps))"

definition re_match :: "regex \<Rightarrow> str \<Rightarrow> rmatched option" where
  "re_match r text = match_at r 0 text"

fun search_from :: "regex \<Rightarrow> nat \<Rightarrow> str \<Rightarrow> rmatched option" where
  "search_from r p [] = match_at r p []"
| "search_from r p (c # cs) =
     (case match_at r p (c # cs) of None \<Rightarrow> search_from r (Suc p) cs | Some m \<Rightarrow> Some m)"

definition re_search :: "regex \<Rightarrow> str \<Rightarrow> rmatched option" where
  "re_search r text = search_from r 0 text"

fun scan :: "regex \<Rightarrow> nat \<Rightarrow> str \<Rightarrow> rmatched list" where
  "scan r p [] = (case match_at r p [] of None \<Rightarrow> [] | Some m \<Rightarrow> [m])"
| "scan r p (c # cs) =
     (case match_at r p (c # cs) of
        None \<Rightarrow> scan r (Suc p) cs
      | Some m \<Rightarrow>
          m # (if p < fst (snd m) then scan r (fst (snd m)) (drop (fst (snd m) - p) (c # cs))
               else scan r (Suc p) cs))"

definition finditer :: "regex \<Rightarrow> str \<Rightarrow> rmatched list" where
  "finditer r text = scan r 0 text"

text \<open>\<^verbatim>\<open>m.group(k)\<close>, for a group that took part in the match.\<close>

definition mgroup :: "str \<Rightarrow> rmatched \<Rightarrow> nat \<Rightarrow> str" where
  "mgroup text m k =
     (case map_of (snd (snd m)) k of None \<Rightarrow> [] | Some (a, b) \<Rightarrow> slice text a b)"

definition findall :: "regex \<Rightarrow> str \<Rightarrow> str list" where
  "findall r text = map (\<lambda>m. mgroup text m 1) (finditer r text)"

text \<open>\<^verbatim>\<open>re.sub(pattern, repl, text)\<close> with a constant replacement.\<close>

fun sub_scan :: "regex \<Rightarrow> str \<Rightarrow> nat \<Rightarrow> str \<Rightarrow> str" where
  "sub_scan r repl p [] = (case match_at r p [] of None \<Rightarrow> [] | Some m \<Rightarrow> repl)"
| "sub_scan r repl p (c # cs) =
     (case match_at r p (c # cs) of
        None \<Rightarrow> c # sub_scan r repl (Suc p) cs
      | Some m \<Rightarrow>
          (if p < fst (snd m)
           then repl @ sub_scan r repl (fst (snd m)) (drop (fst (snd m) - p) (c # cs))
           else repl @ c # sub_scan r repl (Suc p) cs))"

definition re_sub :: "regex \<Rightarrow> str \<Rightarrow> str \<Rightarrow> str" where
  "re_sub r repl text = sub_scan r repl 0 text"

text \<open>\<^verbatim>\<open>re.split(pattern, text)[0]\<close>: the text before the first match.\<close>

definition re_split_first :: "regex \<Rightarrow> str \<Rightarrow> str" where
  "re_split_first r text =
     (case re_search r text of None \<Rightarrow> text | Some m \<Rightarrow> take (fst m) text)"

section \<open>Fuzzy year matching\<close>

type_synonym key = "str \<times> str"

text \<open>\<^verbatim>\<open>re.sub(r'[a-z]$', '', year)\<close>\<close>

definition rx_suffix :: regex where
  "rx_suffix = Cat (Cls is_az) Eol"

definition strip_year_suffix :: "str \<Rightarrow> str" where
  "strip_year_suffix year = re_sub rx_suffix [] year"

text \<open>
  The result of a match is the pair \<^verbatim>\<open>('exact', key)\<close>, \<^verbatim>\<open>('fuzzy', key)\<close> or
  \<^verbatim>\<open>('none', None)\<close>.
\<close>

datatype match_result = Exact key | Fuzzy key | NoMatch

text \<open>
  A key set is a set of keys; a fuzzy lookup is a dictionary from base keys to lists of
  keys. The loop over the candidates returns at the first one whose year differs.
\<close>

definition fuzzy_match_citation ::
    "str \<Rightarrow> str \<Rightarrow> key set \<Rightarrow> (key \<rightharpoonup> key list) \<Rightarrow> match_result" where
  "fuzzy_match_citation surname year ref_set ref_fuzzy_lookup =
     (if (surname, year) \<in> ref_set then Exact (surname, year)
      else if strip_year_suffix year \<noteq> year \<and> (surname, strip_year_suffix year) \<in> ref_set
        then Fuzzy (surname, strip_year_suffix year)
      else (case ref_fuzzy_lookup (surname, strip_year_suffix year) of
              None \<Rightarrow> NoMatch
            | Some candidates \<Rightarrow>
                (case find (\<lambda>(ref_surname, ref_year). ref_year \<noteq> year) candidates of
                   None \<Rightarrow> NoMatch
                 | Some k \<Rightarrow> Fuzzy k)))"

definition fuzzy_match_reference ::
    "str \<Rightarrow> str \<Rightarrow> key set \<Rightarrow> (key \<rightharpoonup> key list) \<Rightarrow> match_result" where
  "fuzzy_match_reference surname year citation_set citation_fuzzy_lookup =
     (if (surname, year) \<in> citation_set then Exact (surname, year)
      else if strip_year_suffix year \<noteq> year \<and> (surname, strip_year_suffix year) \<in> citation_set
        then Fuzzy (surname, strip_year_suffix year)
      else (case citation_fuzzy_lookup (surname, strip_year_suffix year) of
              None \<Rightarrow> NoMatch
            | Some candidates \<Rightarrow>
                (case find (\<lambda>(cite_surname, cite_year). cite_year \<noteq> year) candidates of
                   None \<Rightarrow> NoMatch
                 | Some k \<Rightarrow> Fuzzy k)))"

section \<open>Highlight colours\<close>

datatype highlight = GREEN_HIGHLIGHT | YELLOW_HIGHLIGHT | RED_HIGHLIGHT | CYAN_HIGHLIGHT

definition determine_highlight_color ::
    "str \<Rightarrow> str \<Rightarrow> key set \<Rightarrow> (key \<rightharpoonup> key list) \<Rightarrow> highlight" where
  "determine_highlight_color surname year ref_set ref_fuzzy_lookup =
     (case fuzzy_match_citation surname year ref_set ref_fuzzy_lookup of
        Exact _ \<Rightarrow> GREEN_HIGHLIGHT
      | Fuzzy _ \<Rightarrow> CYAN_HIGHLIGHT
      | NoMatch \<Rightarrow> YELLOW_HIGHLIGHT)"

text \<open>
  The colour of a block of several keys, as every multi-key recognizer of
  \<^verbatim>\<open>highlight_body_citations\<close> computes it:
  \<^verbatim>\<open>colors = [determine_highlight_color(s, y, ...) for s, y in block_citations]\<close>,
  then yellow if yellow is among them, else cyan if cyan is, else green.
\<close>

definition block_color :: "key list \<Rightarrow> key set \<Rightarrow> (key \<rightharpoonup> key list) \<Rightarrow> highlight" where
  "block_color block_citations ref_set ref_fuzzy_lookup =
     (if YELLOW_HIGHLIGHT \<in> set (map (\<lambda>(s, y). determine_highlight_color s y ref_set ref_fuzzy_lookup)
                                     block_citations)
        then YELLOW_HIGHLIGHT
      else if CYAN_HIGHLIGHT \<in> set (map (\<lambda>(s, y). determine_highlight_color s y ref_set ref_fuzzy_lookup)
                                     block_citations)
        then CYAN_HIGHLIGHT
      else GREEN_HIGHLIGHT)"

text \<open>
  The colour of the single key of recognizer 4a, which branches on the match type
  itself.
\<close>

definition single_color :: "str \<Rightarrow> str \<Rightarrow> key set \<Rightarrow> (key \<rightharpoonup> key list) \<Rightarrow> highlight" where
  "single_color surname year ref_set ref_fuzzy_lookup =
     (case fuzzy_match_citation surname year ref_set ref_fuzzy_lookup of
        Exact _ \<Rightarrow> GREEN_HIGHLIGHT
      | Fuzzy _ \<Rightarrow> CYAN_HIGHLIGHT
      | NoMatch \<Rightarrow> YELLOW_HIGHLIGHT)"

section \<open>Text normalizer\<close>

definition replace_char :: "nat \<Rightarrow> nat \<Rightarrow> str \<Rightarrow> str" where
  "replace_char a b text = map (\<lambda>c. if c = a then b else c) text"

definition delete_char :: "nat \<Rightarrow> str \<Rightarrow> str" where
  "delete_char a text = filter (\<lambda>c. c \<noteq> a) text"

text \<open>
  The code points are U+2018, U+2019 (single quotes, to the apostrophe 39), U+201C,
  U+201D (double quotes, to 34), U+2010 to U+2013 (hyphens and dashes, to 45), and the
  invisible marks U+200F, U+200E, U+200B, which only \<open>normalize_text\<close> removes.
\<close>

definition normalize_for_highlight :: "str \<Rightarrow> str" where
  "normalize_for_highlight text =
     replace_char 8211 45 (replace_char 8210 45 (replace_char 8209 45 (replace_char 8208 45
       (replace_char 8221 34 (replace_char 8220 34
         (replace_char 8217 39 (replace_char 8216 39 text)))))))"

definition normalize_text :: "str \<Rightarrow> str" where
  "normalize_text text =
     delete_char 8203 (delete_char 8206 (delete_char 8207
       (replace_char 8211 45 (replace_char 8210 45 (replace_char 8209 45 (replace_char 8208 45
         (replace_char 8221 34 (replace_char 8220 34
           (replace_char 8217 39 (replace_char 8216 39 text))))))))))"

section \<open>The patterns of the program\<close>

definition seq :: "regex list \<Rightarrow> regex" where
  "seq rs = foldr Cat rs Eps"

text \<open>An alternation of several branches; the empty one never matches.\<close>

definition alts :: "regex list \<Rightarrow> regex" where
  "alts rs = foldr Alt rs (NLook Eps)"

abbreviation ws :: regex where
  "ws \<equiv> Cls isspace"

abbreviation dig :: regex where
  "dig \<equiv> Cls isdigit"

abbreviation not_rparen :: regex where
  "not_rparen \<equiv> Cls (\<lambda>c. c \<noteq> 41)"

abbreviation not_rbracket :: regex where
  "not_rbracket \<equiv> Cls (\<lambda>c. c \<noteq> 93)"

text \<open>\<^verbatim>\<open>[A-Z][a-z]+\<close>\<close>

definition cap_word :: regex where
  "cap_word = seq [Cls is_AZ, Plus (Cls is_az)]"

text \<open>\<^verbatim>\<open>[A-Z][a-z]+(?:-[A-Z][a-z]+)?\<close>\<close>

definition hyph_name :: regex where
  "hyph_name = seq [cap_word, Opt (seq [Lit 45, cap_word])]"

text \<open>\<^verbatim>\<open>\d{4}[a-z]?\<close>\<close>

definition year_pat :: regex where
  "year_pat = seq [Times 4 dig, Opt (Cls is_az)]"

text \<open>\<^verbatim>\<open>\d{4}[a-z]?(?:,\s*\d{4}[a-z]?)*\<close>\<close>

definition year_list :: regex where
  "year_list = seq [year_pat, Star (seq [Lit 44, Star ws, year_pat])]"

text \<open>\<^verbatim>\<open>\s+et\s+al\.?\<close>\<close>

definition et_al :: regex where
  "et_al = seq [Plus ws, word ''et'', Plus ws, word ''al'', Opt (Lit 46)]"

text \<open>\<^verbatim>\<open>[a-z][a-z]+(?:-[a-zA-Z]+)?\<close>\<close>

definition lower_name :: regex where
  "lower_name =
     seq [Cls is_az, Plus (Cls is_az), Opt (seq [Lit 45, Plus (Cls (\<lambda>c. is_az c \<or> is_AZ c))])]"

text \<open>\<^verbatim>\<open>(\d{4}[a-z]?)\<close>\<close>

definition rx_year :: regex where
  "rx_year = Grp 1 year_pat"

text \<open>\<^verbatim>\<open>,?\s*\d{4}\<close>\<close>

definition rx_author_split :: regex where
  "rx_author_split = seq [Opt (Lit 44), Star ws, Times 4 dig]"

text \<open>\<^verbatim>\<open>\d{4}\<close>\<close>

definition rx_four_digits :: regex where
  "rx_four_digits = Times 4 dig"

text \<open>
  \<^verbatim>\<open>^(e\.g\.,?\s*|see\s+|cf\.\s*|for\s+review,?\s*see\s*|also\s+|as cited in\s+|as well as\s+)\<close>
  with \<^verbatim>\<open>re.IGNORECASE\<close>
\<close>

definition rx_hedge :: regex where
  "rx_hedge =
     seq [Bol,
          Grp 1 (alts [seq [iword ''e.g.'', Opt (Lit 44), Star ws],
                       seq [iword ''see'', Plus ws],
                       seq [iword ''cf.'', Star ws],
                       seq [iword ''for'', Plus ws, iword ''review'', Opt (Lit 44), Star ws,
                            iword ''see'', Star ws],
                       seq [iword ''also'', Plus ws],
                       seq [iword ''as cited in'', Plus ws],
                       seq [iword ''as well as'', Plus ws]])]"

text \<open>\<^verbatim>\<open>['\u2019]s$\<close>\<close>

definition rx_possessive_s :: regex where
  "rx_possessive_s = seq [Cls (\<lambda>c. c = 39 \<or> c = 8217), Lit 115, Eol]"

text \<open>Recognizer 1 of the extractor: \<^verbatim>\<open>\(([^)]+)\)\<close>\<close>

definition rx_paren_block :: regex where
  "rx_paren_block = seq [Lit 40, Grp 1 (Plus not_rparen), Lit 41]"

text \<open>
  Narrative:
  \<^verbatim>\<open>(?:([A-Z][a-z]+(?:-[A-Z][a-z]+)?)\s+)?([A-Z][a-z]+(?:-[A-Z][a-z]+)?(?:\s+(?:&|and)\s+[A-Z][a-z]+(?:-[A-Z][a-z]+)?)?(?:\s+et\s+al\.?)?)\s*\((?:e\.g\.,?\s*|see\s+|cf\.?\s*)?(\d{4}[a-z]?(?:,\s*\d{4}[a-z]?)*)\)\<close>
\<close>

definition rx_narrative :: regex where
  "rx_narrative =
     seq [Opt (seq [Grp 1 hyph_name, Plus ws]),
          Grp 2 (seq [hyph_name,
                      Opt (seq [Plus ws, alts [Lit 38, word ''and''], Plus ws, hyph_name]),
                      Opt et_al]),
          Star ws, Lit 40,
          Opt (alts [seq [word ''e.g.'', Opt (Lit 44), Star ws],
                     seq [word ''see'', Plus ws],
                     seq [word ''cf'', Opt (Lit 46), Star ws]]),
          Grp 3 year_list, Lit 41]"

text \<open>
  Possessive:
  \<^verbatim>\<open>(?:([A-Z][a-z]+)\s+)?([A-Z][a-z]+)'s\s+(?:(?![A-Z][a-z]+(?:-[A-Z][a-z]+)?'s)[^(]){0,80}\(([^)]+)\)\<close>
\<close>

definition rx_possessive :: regex where
  "rx_possessive =
     seq [Opt (seq [Grp 1 cap_word, Plus ws]),
          Grp 2 cap_word, Lit 39, Lit 115, Plus ws,
          Rep 0 (Some 80) (seq [NLook (seq [hyph_name, Lit 39, Lit 115]), Cls (\<lambda>c. c \<noteq> 40)]),
          Lit 40, Grp 3 (Plus not_rparen), Lit 41]"

text \<open>
  4a, bracket citation:
  \<^verbatim>\<open>([A-Z][a-z]+(?:-[A-Z][a-z]+)?(?:,?\s*&?\s*[A-Z][a-z]+(?:-[A-Z][a-z]+)?)*(?:\s+et\s+al\.?)?)\s*\[(\d{4}[a-z]?)\]\<close>
\<close>

definition rx_bracket :: regex where
  "rx_bracket =
     seq [Grp 1 (seq [hyph_name,
                      Star (seq [Opt (Lit 44), Star ws, Opt (Lit 38), Star ws, hyph_name]),
                      Opt et_al]),
          Star ws, Lit 91, Grp 2 year_pat, Lit 93]"

text \<open>4b, bracket block: \<^verbatim>\<open>\[([^\]]*\d{4}[^\]]*;[^\]]*)\]\<close>\<close>

definition rx_bracket_multi :: regex where
  "rx_bracket_multi =
     seq [Lit 91,
          Grp 1 (seq [Star not_rbracket, Times 4 dig, Star not_rbracket, Lit 59, Star not_rbracket]),
          Lit 93]"

text \<open>
  5, and colleagues:
  \<^verbatim>\<open>([A-Z][a-z]+)\s+and\s+(?:colleagues|coworkers|collaborators)\s*\(([^)]+)\)\<close>
\<close>

definition rx_colleagues :: regex where
  "rx_colleagues =
     seq [Grp 1 cap_word, Plus ws, word ''and'', Plus ws,
          alts [word ''colleagues'', word ''coworkers'', word ''collaborators''],
          Star ws, Lit 40, Grp 2 (Plus not_rparen), Lit 41]"

text \<open>6, et al. with a complex parenthetical: \<^verbatim>\<open>([A-Z][a-z]+)\s+et\s+al\.?\s*\(([^)]+)\)\<close>\<close>

definition rx_et_al_paren :: regex where
  "rx_et_al_paren =
     seq [Grp 1 cap_word, Plus ws, word ''et'', Plus ws, word ''al'', Opt (Lit 46),
          Star ws, Lit 40, Grp 2 (Plus not_rparen), Lit 41]"

text \<open>
  7, lowercase, in the extractor:
  \<^verbatim>\<open>([a-z][a-z]+(?:-[a-zA-Z]+)?)\s*[\(,]\s*(\d{4}[a-z]?)\<close>
\<close>

definition rx_lowercase :: regex where
  "rx_lowercase =
     seq [Grp 1 lower_name, Star ws, Cls (\<lambda>c. c = 40 \<or> c = 44), Star ws, Grp 2 year_pat]"

text \<open>The parenthetical pattern of the span locator: \<^verbatim>\<open>\(([^)]*\d{4}[a-z]?[^)]*)\)\<close>\<close>

definition rx_paren_year :: regex where
  "rx_paren_year =
     seq [Lit 40,
          Grp 1 (seq [Star not_rparen, Times 4 dig, Opt (Cls is_az), Star not_rparen]),
          Lit 41]"

text \<open>
  The lowercase pattern of the span locator:
  \<^verbatim>\<open>([a-z][a-z]+(?:-[a-zA-Z]+)?)\s*\((\d{4}[a-z]?(?:,\s*\d{4}[a-z]?)*)\)\<close>
\<close>

definition rx_lowercase_paren :: regex where
  "rx_lowercase_paren = seq [Grp 1 lower_name, Star ws, Lit 40, Grp 2 year_list, Lit 41]"

text \<open>
  The reference patterns \<^verbatim>\<open>\((\d{4}[a-z]?)\)\<close> and \<^verbatim>\<open>\(\d{4}[a-z]?\)\<close>.
\<close>

definition rx_year_paren :: regex where
  "rx_year_paren = seq [Lit 40, Grp 1 year_pat, Lit 41]"

definition rx_year_paren_plain :: regex where
  "rx_year_paren_plain = seq [Lit 40, year_pat, Lit 41]"

text \<open>The report strings: \<^verbatim>\<open>(\w[\w-]*)\s*\((\d{4}[a-z]?)\)\<close>\<close>

definition rx_report_key :: regex where
  "rx_report_key =
     seq [Grp 1 (seq [Cls is_word, Star (Cls (\<lambda>c. is_word c \<or> c = 45))]),
          Star ws, Lit 40, Grp 2 year_pat, Lit 41]"

section \<open>Author and year keys\<close>

text \<open>
  The stop list is a global set that the learned noise words extend before extraction, so
  the functions that consult it take the set in force as an argument; \<open>NOISE_WORDS\<close>
  is its initial value.
\<close>

definition NOISE_WORDS :: "str set" where
  "NOISE_WORDS = set (map u
     [''approaches'', ''therapy'', ''psychology'', ''modes'', ''vol'', ''eds'',
      ''chapter'', ''section'', ''page'', ''table'', ''figure'', ''note'', ''press'',
      ''cognitive'', ''relational'', ''behavioral'', ''emotional'', ''self'',
      ''individual'', ''interpersonal'', ''focused'', ''based'', ''oriented'',
      ''and'', ''the'', ''for'', ''with'', ''from'', ''into'', ''between'',
      ''also'', ''cited'', ''review'', ''example'', ''well'', ''see'', ''new'',
      ''other'', ''their'', ''these'', ''those'', ''such'', ''both'', ''each'',
      ''psychotherapy'', ''attachment'', ''schema'', ''technique'', ''model'',
      ''clinical'', ''therapeutic'', ''treatment'', ''practice'', ''research'',
      ''humanistic'', ''emotion-focused'', ''self-psychology'', ''self-psychology:'',
      ''psychoanalytic'', ''existential'', ''gestalt'', ''integrative'',
      ''dynamic'', ''experiential'', ''systemic'', ''narrative'', ''dialectical''])"

definition is_noise :: "str set \<Rightarrow> str \<Rightarrow> bool" where
  "is_noise noise surname \<longleftrightarrow> lower surname \<in> noise \<or> length surname \<le> 2"

definition normalize_surname :: "str \<Rightarrow> str" where
  "normalize_surname s0 =
     (let s = strip s0 in
      if s = [] then s
      else if length s > 1 then upper [hd s] @ tl s
      else upper s)"

definition clean_author :: "str \<Rightarrow> str" where
  "clean_author author_str =
     re_sub rx_possessive_s []
       (strip (rstrip_char 44 (strip (re_sub rx_hedge [] (strip author_str)))))"

definition particles :: "str set" where
  "particles = set (map u [''van'', ''de'', ''den'', ''der'', ''von'', ''di'', ''la'', ''le'', ''el'', ''al''])"

text \<open>\<^verbatim>\<open>parts.index(last)\<close>: the first position of an element that is in the list.\<close>

definition index_of :: "'a \<Rightarrow> 'a list \<Rightarrow> nat" where
  "index_of x xs = length (takeWhile (\<lambda>y. y \<noteq> x) xs)"

text \<open>
  The lead author's surname. The first two lines of the function cut the string at
  \<^verbatim>\<open>' et al'\<close>, \<^verbatim>\<open>' & '\<close>, \<^verbatim>\<open>' and '\<close> and the first comma, and strip it.
\<close>

definition lead_author :: "str \<Rightarrow> str" where
  "lead_author author_str =
     strip (rstrip_char 46 (strip (strip
       (hd (split_on (u '','')
         (hd (split_on (u '' and '')
           (hd (split_on (u '' & '')
             (hd (split_on (u '' et al'') author_str)))))))))))"

definition first_surname :: "str \<Rightarrow> str" where
  "first_surname author_str =
     (let s = lead_author author_str; parts = split_ws s in
      if parts = [] then normalize_surname s
      else
        (let cap_parts = filter (\<lambda>p. p \<noteq> [] \<and> isupper (hd p)) parts in
         if length cap_parts \<ge> 2 then
           (let last_cap = last cap_parts; idx = index_of last_cap parts in
            if last_cap \<in> set parts \<and> idx > 0 \<and> lower (parts ! (idx - 1)) \<in> particles
            then parts ! (idx - 1) @ [32] @ last_cap
            else normalize_surname last_cap)
         else normalize_surname (hd parts)))"

section \<open>Citation extractor\<close>

text \<open>
  Every recognizer that reads the inside of a bracket splits it at \<^verbatim>\<open>;\<close> and
  handles each part in the same way: the years are
  \<^verbatim>\<open>re.findall(r'(\d{4}[a-z]?)', part)\<close>, the author is
  \<^verbatim>\<open>clean_author(re.split(r',?\s*\d{4}', part)[0].strip())\<close>.
\<close>

definition part_years :: "str \<Rightarrow> str list" where
  "part_years part = findall rx_year part"

definition part_author :: "str \<Rightarrow> str" where
  "part_author part = clean_author (strip (re_split_first rx_author_split part))"

text \<open>
  The parts of a parenthetical, with author inheritance: a part of bare years takes the
  author of the nearest part before it that had one (\<open>last_author\<close>).
\<close>

fun inherit_block :: "str set \<Rightarrow> str option \<Rightarrow> str list \<Rightarrow> key list" where
  "inherit_block noise last_author [] = []"
| "inherit_block noise last_author (part0 # parts) =
     (if part_years (strip part0) \<noteq> [] then
        (if part_author (strip part0) \<noteq> [] \<and> length (part_author (strip part0)) > 2 then
           (if \<not> is_noise noise (first_surname (part_author (strip part0))) then
              map (Pair (first_surname (part_author (strip part0)))) (part_years (strip part0))
              @ inherit_block noise (Some (first_surname (part_author (strip part0)))) parts
            else inherit_block noise last_author parts)
         else (case last_author of
                 None \<Rightarrow> inherit_block noise last_author parts
               | Some a \<Rightarrow>
                   (if a \<noteq> [] then map (Pair a) (part_years (strip part0))
                                      @ inherit_block noise last_author parts
                    else inherit_block noise last_author parts)))
      else inherit_block noise last_author parts)"

text \<open>The parts of a bracket block (4b): no inheritance.\<close>

fun plain_block :: "str set \<Rightarrow> str list \<Rightarrow> key list" where
  "plain_block noise [] = []"
| "plain_block noise (part0 # parts) =
     (if part_years (strip part0) \<noteq> [] then
        (if part_author (strip part0) \<noteq> [] \<and> length (part_author (strip part0)) > 2 then
           (if \<not> is_noise noise (first_surname (part_author (strip part0))) then
              map (Pair (first_surname (part_author (strip part0)))) (part_years (strip part0))
              @ plain_block noise parts
            else plain_block noise parts)
         else plain_block noise parts)
      else plain_block noise parts)"

text \<open>
  The parts of a parenthetical that follows a subject (possessive, and colleagues,
  et al.): a part of bare years takes the subject.
\<close>

fun subject_block :: "str set \<Rightarrow> str \<Rightarrow> str list \<Rightarrow> key list" where
  "subject_block noise subject [] = []"
| "subject_block noise subject (part0 # parts) =
     (if part_years (strip part0) = [] then subject_block noise subject parts
      else if part_author (strip part0) \<noteq> [] \<and> length (part_author (strip part0)) > 2 then
        (if \<not> is_noise noise (first_surname (part_author (strip part0))) then
           map (Pair (first_surname (part_author (strip part0)))) (part_years (strip part0))
           @ subject_block noise subject parts
         else subject_block noise subject parts)
      else
        (if \<not> is_noise noise subject then
           map (Pair subject) (part_years (strip part0)) @ subject_block noise subject parts
         else subject_block noise subject parts))"

definition semicolon_parts :: "str \<Rightarrow> str list" where
  "semicolon_parts block = split_on [59] block"

text \<open>The keys each recognizer adds for one match (for recognizer 1, one block).\<close>

definition keys_parenthetical :: "str set \<Rightarrow> str \<Rightarrow> key list" where
  "keys_parenthetical noise block = inherit_block noise None (semicolon_parts block)"

definition keys_narrative :: "str set \<Rightarrow> str \<Rightarrow> rmatched \<Rightarrow> key list" where
  "keys_narrative noise text m =
     (if \<not> is_noise noise (first_surname (strip (mgroup text m 2)))
      then map (Pair (first_surname (strip (mgroup text m 2)))) (findall rx_year (mgroup text m 3))
      else [])"

definition keys_possessive :: "str set \<Rightarrow> str \<Rightarrow> rmatched \<Rightarrow> key list" where
  "keys_possessive noise text m =
     subject_block noise (mgroup text m 2) (semicolon_parts (mgroup text m 3))"

definition keys_bracket :: "str set \<Rightarrow> str \<Rightarrow> rmatched \<Rightarrow> key list" where
  "keys_bracket noise text m =
     (if \<not> is_noise noise (first_surname (clean_author (strip (mgroup text m 1))))
      then [(first_surname (clean_author (strip (mgroup text m 1))), mgroup text m 2)]
      else [])"

definition keys_bracket_multi :: "str set \<Rightarrow> str \<Rightarrow> rmatched \<Rightarrow> key list" where
  "keys_bracket_multi noise text m = plain_block noise (semicolon_parts (mgroup text m 1))"

definition keys_subject_paren :: "str set \<Rightarrow> str \<Rightarrow> rmatched \<Rightarrow> key list" where
  "keys_subject_paren noise text m =
     subject_block noise (mgroup text m 1) (semicolon_parts (mgroup text m 2))"

definition keys_lowercase :: "str set \<Rightarrow> str \<Rightarrow> rmatched \<Rightarrow> key list" where
  "keys_lowercase noise text m =
     (if \<not> is_noise noise (normalize_surname (mgroup text m 1))
      then [(normalize_surname (mgroup text m 1), mgroup text m 2)]
      else [])"

text \<open>
  The keys of the eight loops of \<^verbatim>\<open>extract_citations_from_text\<close> (1, 2, 3, 4a, 4b,
  5, 6, 7), on the normalized text, before the final normalization of the surnames.
\<close>

definition citation_keys :: "str set \<Rightarrow> str \<Rightarrow> key list" where
  "citation_keys noise text =
     concat (map (keys_parenthetical noise) (findall rx_paren_block text))
     @ concat (map (keys_narrative noise text) (finditer rx_narrative text))
     @ concat (map (keys_possessive noise text) (finditer rx_possessive text))
     @ concat (map (keys_bracket noise text) (finditer rx_bracket text))
     @ concat (map (keys_bracket_multi noise text) (finditer rx_bracket_multi text))
     @ concat (map (keys_subject_paren noise text) (finditer rx_colleagues text))
     @ concat (map (keys_subject_paren noise text) (finditer rx_et_al_paren text))
     @ concat (map (keys_lowercase noise text) (finditer rx_lowercase text))"

definition extract_citations_from_text :: "str set \<Rightarrow> str \<Rightarrow> key set" where
  "extract_citations_from_text noise plain_text =
     set (map (\<lambda>(surname, year). (normalize_surname surname, year))
            (citation_keys noise (normalize_text plain_text)))"

section \<open>The document\<close>

text \<open>
  A run is its highlight and the children of its XML element that carry content; the
  program reaches into them in \<^verbatim>\<open>split_run\<close>, which removes and adds \<^verbatim>\<open>w:t\<close>
  children. The text of a run, as the document library computes it, joins its children:
  a \<^verbatim>\<open>w:t\<close> gives its text, a \<^verbatim>\<open>w:tab\<close> a tab, a \<^verbatim>\<open>w:br\<close> a newline, anything
  else nothing. A paragraph is the list of its runs and its text is theirs joined; the
  document is the list of its paragraphs (\<^verbatim>\<open>doc.paragraphs\<close>).
\<close>

datatype rchild = WT str | WTab | WBr | WOther

record run =
  highlight_val :: "highlight option"
  children :: "rchild list"

type_synonym docx_para = "run list"

type_synonym document = "docx_para list"

fun child_text :: "rchild \<Rightarrow> str" where
  "child_text (WT s) = s"
| "child_text WTab = [9]"
| "child_text WBr = [10]"
| "child_text WOther = []"

fun is_WT :: "rchild \<Rightarrow> bool" where
  "is_WT (WT s) = True"
| "is_WT _ = False"

definition run_text :: "run \<Rightarrow> str" where
  "run_text r = concat (map child_text (children r))"

definition para_text :: "docx_para \<Rightarrow> str" where
  "para_text p = concat (map run_text p)"

definition set_highlight :: "run \<Rightarrow> highlight \<Rightarrow> run" where
  "set_highlight r color_index = r\<lparr>highlight_val := Some color_index\<rparr>"

text \<open>
  \<^verbatim>\<open>split_run\<close>: the right run is a deep copy of the left one; the \<^verbatim>\<open>w:t\<close> children
  of both are removed, and a new \<^verbatim>\<open>w:t\<close> with the left (right) part of the text is
  appended to each.
\<close>

definition split_run :: "run \<Rightarrow> nat \<Rightarrow> run \<times> run" where
  "split_run r split_at =
     (r\<lparr>children := filter (\<lambda>c. \<not> is_WT c) (children r) @ [WT (take split_at (run_text r))]\<rparr>,
      r\<lparr>children := filter (\<lambda>c. \<not> is_WT c) (children r) @ [WT (drop split_at (run_text r))]\<rparr>)"

text \<open>
  The first loop of \<^verbatim>\<open>highlight_span_in_paragraph\<close>, for one boundary: the first run
  that the boundary falls strictly inside is split there.
\<close>

fun split_boundary :: "nat \<Rightarrow> nat \<Rightarrow> docx_para \<Rightarrow> docx_para" where
  "split_boundary pos boundary [] = []"
| "split_boundary pos boundary (r # rs) =
     (if pos < boundary \<and> boundary < pos + length (run_text r)
      then fst (split_run r (boundary - pos)) # snd (split_run r (boundary - pos)) # rs
      else r # split_boundary (pos + length (run_text r)) boundary rs)"

text \<open>The second loop: every non-empty run inside the span is highlighted.\<close>

fun mark_runs :: "nat \<Rightarrow> nat \<Rightarrow> nat \<Rightarrow> highlight \<Rightarrow> docx_para \<Rightarrow> docx_para" where
  "mark_runs pos char_start char_end color_index [] = []"
| "mark_runs pos char_start char_end color_index (r # rs) =
     (if pos \<ge> char_start \<and> pos + length (run_text r) \<le> char_end \<and> length (run_text r) > 0
      then set_highlight r color_index else r)
     # mark_runs (pos + length (run_text r)) char_start char_end color_index rs"

definition highlight_span_in_paragraph ::
    "docx_para \<Rightarrow> nat \<Rightarrow> nat \<Rightarrow> highlight \<Rightarrow> docx_para" where
  "highlight_span_in_paragraph para char_start char_end color_index =
     mark_runs 0 char_start char_end color_index
       (split_boundary 0 char_end (split_boundary 0 char_start para))"

section \<open>Reference extractor\<close>

definition headings :: "str set" where
  "headings = set (map u [''References'', ''REFERENCES'', ''Reference List'', ''Bibliography''])"

text \<open>\<^verbatim>\<open>text[:text.index('(')]\<close>, for a text that has a parenthesis.\<close>

definition before_paren :: "str \<Rightarrow> str" where
  "before_paren text = take (index_of 40 text) text"

text \<open>
  The surname of a reference entry:
  \<^verbatim>\<open>before = text[:text.index('(')].strip().rstrip(',').strip()\<close>,
  \<^verbatim>\<open>parts = before.split(',')[0].strip().rstrip('.').split()\<close>,
  \<^verbatim>\<open>surname = parts[0] if parts else ''\<close>.
\<close>

definition entry_surname :: "str \<Rightarrow> str" where
  "entry_surname text =
     (case split_ws (rstrip_char 46 (strip (hd (split_on (u '','')
               (strip (rstrip_char 44 (strip (before_paren text)))))))) of
        [] \<Rightarrow> []
      | p # _ \<Rightarrow> p)"

text \<open>The first loop of \<^verbatim>\<open>extract_references_from_doc\<close>: the raw entries, in order.\<close>

fun raw_refs :: "nat \<Rightarrow> str list \<Rightarrow> (str \<times> str \<times> nat) list" where
  "raw_refs pi [] = []"
| "raw_refs pi (t # ts) =
     (if normalize_text (strip t) = [] then raw_refs (Suc pi) ts
      else if normalize_text (strip t) \<in> headings then raw_refs (Suc pi) ts
      else (case re_search rx_year_paren (normalize_text (strip t)) of
              None \<Rightarrow> raw_refs (Suc pi) ts
            | Some m \<Rightarrow>
                (if entry_surname (normalize_text (strip t)) \<noteq> [] \<and>
                    length (entry_surname (normalize_text (strip t))) > 1
                 then (entry_surname (normalize_text (strip t)),
                       mgroup (normalize_text (strip t)) m 1, pi) # raw_refs (Suc pi) ts
                 else raw_refs (Suc pi) ts)))"

definition base_key :: "str \<times> str \<times> nat \<Rightarrow> key" where
  "base_key r = (fst r, strip_year_suffix (fst (snd r)))"

text \<open>\<^verbatim>\<open>base_counts\<close>, a \<^verbatim>\<open>Counter\<close>: a key that was never counted reads as 0.\<close>

definition base_counts :: "(str \<times> str \<times> nat) list \<Rightarrow> key \<Rightarrow> nat" where
  "base_counts raw = foldl (\<lambda>counts r. counts(base_key r := counts (base_key r) + 1)) (\<lambda>_. 0) raw"

definition has_suffix :: "str \<Rightarrow> bool" where
  "has_suffix year \<longleftrightarrow> re_search rx_suffix year \<noteq> None"

text \<open>
  The second loop: \<open>suffix_tracker\<close> holds, for a base key, the code point of the next
  letter to hand out (\<^verbatim>\<open>ord('a')\<close> is 97).
\<close>

fun assign_suffixes ::
    "(key \<Rightarrow> nat) \<Rightarrow> (key \<rightharpoonup> nat) \<Rightarrow> (str \<times> str \<times> nat) list \<Rightarrow> key list" where
  "assign_suffixes counts suffix_tracker [] = []"
| "assign_suffixes counts suffix_tracker ((surname, year, pi) # rest) =
     (if counts (surname, strip_year_suffix year) > 1 \<and> \<not> has_suffix year then
        (case suffix_tracker (surname, strip_year_suffix year) of
           None \<Rightarrow>
             (surname, year @ [97]) # (surname, year)
             # assign_suffixes counts
                 (suffix_tracker((surname, strip_year_suffix year) \<mapsto> 98)) rest
         | Some k \<Rightarrow>
             (surname, year @ [k]) # (surname, year)
             # assign_suffixes counts
                 (suffix_tracker((surname, strip_year_suffix year) \<mapsto> k + 1)) rest)
      else (surname, year) # assign_suffixes counts suffix_tracker rest)"

definition suffixed_refs :: "(str \<times> str \<times> nat) list \<Rightarrow> key set" where
  "suffixed_refs raw = set (assign_suffixes (base_counts raw) Map.empty raw)"

definition extract_references_from_doc :: "document \<Rightarrow> nat \<Rightarrow> key set" where
  "extract_references_from_doc doc ref_para_idx =
     suffixed_refs (raw_refs (ref_para_idx + 1) (map para_text (drop (ref_para_idx + 1) doc)))"

section \<open>Span locator\<close>

text \<open>
  An accepted span: its offsets in the paragraph, the keys it covers and its colour.
  The program keeps the offsets in \<open>highlighted_spans\<close> and marks the span at once;
  the recognizer that accepted the span is recorded here as well.
\<close>

datatype recognizer =
  Bracket | BracketMulti | Parenthetical | Narrative | Possessive | Colleagues | Lowercase

record cite_span =
  cs_start :: nat
  cs_end :: nat
  cs_keys :: "key list"
  cs_color :: highlight
  cs_recognizer :: recognizer

text \<open>
  The test every recognizer after 4a makes before it looks at a candidate:
  \<^verbatim>\<open>any(hs <= span_start < he or hs < span_end <= he for hs, he in highlighted_spans)\<close>
\<close>

definition overlaps_accepted :: "cite_span list \<Rightarrow> nat \<Rightarrow> nat \<Rightarrow> bool" where
  "overlaps_accepted accepted span_start span_end =
     list_ex (\<lambda>h. (cs_start h \<le> span_start \<and> span_start < cs_end h) \<or>
                   (cs_start h < span_end \<and> span_end \<le> cs_end h)) accepted"

definition accept_bracket ::
    "str set \<Rightarrow> key set \<Rightarrow> (key \<rightharpoonup> key list) \<Rightarrow> str \<Rightarrow> cite_span list \<Rightarrow> rmatched \<Rightarrow> cite_span list" where
  "accept_bracket noise refs idx text accepted m =
     (if is_noise noise (first_surname (clean_author (strip (mgroup text m 1)))) then accepted
      else accepted @
        [\<lparr>cs_start = fst m, cs_end = fst (snd m),
          cs_keys = [(first_surname (clean_author (strip (mgroup text m 1))), mgroup text m 2)],
          cs_color = single_color (first_surname (clean_author (strip (mgroup text m 1))))
                       (mgroup text m 2) refs idx,
          cs_recognizer = Bracket\<rparr>])"

definition accept_bracket_multi ::
    "str set \<Rightarrow> key set \<Rightarrow> (key \<rightharpoonup> key list) \<Rightarrow> str \<Rightarrow> cite_span list \<Rightarrow> rmatched \<Rightarrow> cite_span list" where
  "accept_bracket_multi noise refs idx text accepted m =
     (if overlaps_accepted accepted (fst m) (fst (snd m)) then accepted
      else if keys_bracket_multi noise text m \<noteq> [] then
        accepted @
        [\<lparr>cs_start = fst m, cs_end = fst (snd m),
          cs_keys = keys_bracket_multi noise text m,
          cs_color = block_color (keys_bracket_multi noise text m) refs idx,
          cs_recognizer = BracketMulti\<rparr>]
      else accepted)"

definition accept_parenthetical ::
    "str set \<Rightarrow> key set \<Rightarrow> (key \<rightharpoonup> key list) \<Rightarrow> str \<Rightarrow> cite_span list \<Rightarrow> rmatched \<Rightarrow> cite_span list" where
  "accept_parenthetical noise refs idx text accepted m =
     (if overlaps_accepted accepted (fst m) (fst (snd m)) then accepted
      else if keys_parenthetical noise (mgroup text m 1) \<noteq> [] then
        accepted @
        [\<lparr>cs_start = fst m, cs_end = fst (snd m),
          cs_keys = keys_parenthetical noise (mgroup text m 1),
          cs_color = block_color (keys_parenthetical noise (mgroup text m 1)) refs idx,
          cs_recognizer = Parenthetical\<rparr>]
      else accepted)"

definition accept_narrative ::
    "str set \<Rightarrow> key set \<Rightarrow> (key \<rightharpoonup> key list) \<Rightarrow> str \<Rightarrow> cite_span list \<Rightarrow> rmatched \<Rightarrow> cite_span list" where
  "accept_narrative noise refs idx text accepted m =
     (if overlaps_accepted accepted (fst m) (fst (snd m)) then accepted
      else if is_noise noise (first_surname (strip (mgroup text m 2))) then accepted
      else accepted @
        [\<lparr>cs_start = fst m, cs_end = fst (snd m),
          cs_keys = map (Pair (first_surname (strip (mgroup text m 2))))
                      (findall rx_year (mgroup text m 3)),
          cs_color = block_color (map (Pair (first_surname (strip (mgroup text m 2))))
                                    (findall rx_year (mgroup text m 3))) refs idx,
          cs_recognizer = Narrative\<rparr>])"

definition accept_possessive ::
    "str set \<Rightarrow> key set \<Rightarrow> (key \<rightharpoonup> key list) \<Rightarrow> str \<Rightarrow> cite_span list \<Rightarrow> rmatched \<Rightarrow> cite_span list" where
  "accept_possessive noise refs idx text accepted m =
     (if overlaps_accepted accepted (fst m) (fst (snd m)) then accepted
      else if re_search rx_four_digits (mgroup text m 3) = None then accepted
      else if keys_possessive noise text m \<noteq> [] then
        accepted @
        [\<lparr>cs_start = fst m, cs_end = fst (snd m),
          cs_keys = keys_possessive noise text m,
          cs_color = block_color (keys_possessive noise text m) refs idx,
          cs_recognizer = Possessive\<rparr>]
      else accepted)"

definition accept_colleagues ::
    "str set \<Rightarrow> key set \<Rightarrow> (key \<rightharpoonup> key list) \<Rightarrow> str \<Rightarrow> cite_span list \<Rightarrow> rmatched \<Rightarrow> cite_span list" where
  "accept_colleagues noise refs idx text accepted m =
     (if overlaps_accepted accepted (fst m) (fst (snd m)) then accepted
      else if keys_subject_paren noise text m \<noteq> [] then
        accepted @
        [\<lparr>cs_start = fst m, cs_end = fst (snd m),
          cs_keys = keys_subject_paren noise text m,
          cs_color = block_color (keys_subject_paren noise text m) refs idx,
          cs_recognizer = Colleagues\<rparr>]
      else accepted)"

definition accept_lowercase ::
    "str set \<Rightarrow> key set \<Rightarrow> (key \<rightharpoonup> key list) \<Rightarrow> str \<Rightarrow> cite_span list \<Rightarrow> rmatched \<Rightarrow> cite_span list" where
  "accept_lowercase noise refs idx text accepted m =
     (if overlaps_accepted accepted (fst m) (fst (snd m)) then accepted
      else if is_noise noise (normalize_surname (mgroup text m 1)) then accepted
      else accepted @
        [\<lparr>cs_start = fst m, cs_end = fst (snd m),
          cs_keys = map (Pair (normalize_surname (mgroup text m 1)))
                      (findall rx_year (mgroup text m 2)),
          cs_color = block_color (map (Pair (normalize_surname (mgroup text m 1)))
                                    (findall rx_year (mgroup text m 2))) refs idx,
          cs_recognizer = Lowercase\<rparr>])"

text \<open>
  The spans \<^verbatim>\<open>highlight_body_citations\<close> accepts in one paragraph, in the order in
  which it accepts them: the seven loops run one after the other over the text
  normalized for highlighting, each seeing the spans accepted so far.
\<close>

definition locate_spans ::
    "str set \<Rightarrow> key set \<Rightarrow> (key \<rightharpoonup> key list) \<Rightarrow> str \<Rightarrow> cite_span list" where
  "locate_spans noise refs idx ptext =
     (if strip (normalize_for_highlight ptext) = [] then []
      else
        foldl (accept_lowercase noise refs idx (normalize_for_highlight ptext))
         (foldl (accept_colleagues noise refs idx (normalize_for_highlight ptext))
           (foldl (accept_possessive noise refs idx (normalize_for_highlight ptext))
             (foldl (accept_narrative noise refs idx (normalize_for_highlight ptext))
               (foldl (accept_parenthetical noise refs idx (normalize_for_highlight ptext))
                 (foldl (accept_bracket_multi noise refs idx (normalize_for_highlight ptext))
                   (foldl (accept_bracket noise refs idx (normalize_for_highlight ptext)) []
                      (finditer rx_bracket (normalize_for_highlight ptext)))
                   (finditer rx_bracket_multi (normalize_for_highlight ptext)))
                 (finditer rx_paren_year (normalize_for_highlight ptext)))
               (finditer rx_narrative (normalize_for_highlight ptext)))
             (finditer rx_possessive (normalize_for_highlight ptext)))
           (finditer rx_colleagues (normalize_for_highlight ptext)))
         (finditer rx_lowercase_paren (normalize_for_highlight ptext)))"

definition located_keys ::
    "str set \<Rightarrow> key set \<Rightarrow> (key \<rightharpoonup> key list) \<Rightarrow> str \<Rightarrow> key set" where
  "located_keys noise refs idx ptext = set (concat (map cs_keys (locate_spans noise refs idx ptext)))"

text \<open>The effect of \<^verbatim>\<open>highlight_body_citations\<close> on one body paragraph.\<close>

definition highlight_body_paragraph ::
    "str set \<Rightarrow> key set \<Rightarrow> (key \<rightharpoonup> key list) \<Rightarrow> docx_para \<Rightarrow> docx_para" where
  "highlight_body_paragraph noise refs idx para =
     foldl (\<lambda>p h. highlight_span_in_paragraph p (cs_start h) (cs_end h) (cs_color h)) para
       (locate_spans noise refs idx (para_text para))"

section \<open>Reference highlighter\<close>

text \<open>
  What \<^verbatim>\<open>highlight_references\<close> decides for one paragraph after the heading: nothing
  when it skips the paragraph, else the key, its match, the colour and the end of the
  span, which is the end of the first \<^verbatim>\<open>(Year)\<close> in \<^verbatim>\<open>para.text\<close>, or the length
  of \<^verbatim>\<open>para.text\<close> when it has none.
\<close>

record ref_mark =
  rm_surname :: str
  rm_year :: str
  rm_color :: highlight
  rm_span_end :: nat

definition reference_color :: "match_result \<Rightarrow> highlight" where
  "reference_color mt =
     (case mt of Exact _ \<Rightarrow> GREEN_HIGHLIGHT | Fuzzy _ \<Rightarrow> CYAN_HIGHLIGHT | NoMatch \<Rightarrow> RED_HIGHLIGHT)"

definition classify_reference ::
    "key set \<Rightarrow> (key \<rightharpoonup> key list) \<Rightarrow> str \<Rightarrow> ref_mark option" where
  "classify_reference citation_set citation_fuzzy_lookup ptext =
     (if strip ptext = [] then None
      else
        (case re_search rx_year_paren (normalize_text (strip ptext)) of
           None \<Rightarrow> None
         | Some year_match \<Rightarrow>
             (if entry_surname (normalize_text (strip ptext)) = [] then None
              else Some
                \<lparr>rm_surname = entry_surname (normalize_text (strip ptext)),
                 rm_year = mgroup (normalize_text (strip ptext)) year_match 1,
                 rm_color = reference_color
                   (fuzzy_match_reference (entry_surname (normalize_text (strip ptext)))
                      (mgroup (normalize_text (strip ptext)) year_match 1)
                      citation_set citation_fuzzy_lookup),
                 rm_span_end =
                   (case re_search rx_year_paren_plain ptext of
                      Some year_paren_match \<Rightarrow> fst (snd year_paren_match)
                    | None \<Rightarrow> length ptext)\<rparr>)))"

definition highlight_reference_paragraph ::
    "key set \<Rightarrow> (key \<rightharpoonup> key list) \<Rightarrow> docx_para \<Rightarrow> docx_para" where
  "highlight_reference_paragraph citation_set citation_fuzzy_lookup para =
     (case classify_reference citation_set citation_fuzzy_lookup (para_text para) of
        None \<Rightarrow> para
      | Some rm \<Rightarrow> highlight_span_in_paragraph para 0 (rm_span_end rm) (rm_color rm))"

definition highlight_references ::
    "document \<Rightarrow> nat \<Rightarrow> key set \<Rightarrow> (key \<rightharpoonup> key list) \<Rightarrow> document" where
  "highlight_references doc ref_para_idx citation_set citation_fuzzy_lookup =
     take (ref_para_idx + 1) doc
     @ map (highlight_reference_paragraph citation_set citation_fuzzy_lookup)
         (drop (ref_para_idx + 1) doc)"

section \<open>Learned patterns\<close>

text \<open>
  A cross-match record is a JSON object read with \<^verbatim>\<open>cm.get(key, default)\<close>, so each
  of its entries may be missing.
\<close>

record cross_match =
  cm_author :: "str option"
  cm_cite_year :: "str option"
  cm_ref_year :: "str option"
  cm_reason :: "str option"

record learned_patterns =
  noise_words :: "str list"
  cross_matches :: "cross_match list"

definition apply_learned_noise_words :: "learned_patterns \<Rightarrow> str set \<Rightarrow> str set" where
  "apply_learned_noise_words learned noise = noise \<union> set (map lower (noise_words learned))"

text \<open>
  The dictionaries \<open>cite_lookup\<close> and \<open>ref_lookup\<close>: every report string that
  \<^verbatim>\<open>re.match\<close> parses is stored under its lowercased author and its year.
\<close>

definition report_lookup :: "str list \<Rightarrow> (key \<rightharpoonup> str)" where
  "report_lookup items =
     foldl (\<lambda>lookup c.
              case re_match rx_report_key c of
                None \<Rightarrow> lookup
              | Some m \<Rightarrow> lookup((lower (mgroup c m 1), mgroup c m 2) \<mapsto> c))
       Map.empty items"

definition get_or :: "'a \<Rightarrow> 'a option \<Rightarrow> 'a" where
  "get_or d v = (case v of None \<Rightarrow> d | Some x \<Rightarrow> x)"

definition apply_learned_cross_matches ::
    "learned_patterns \<Rightarrow> str list \<Rightarrow> str list \<Rightarrow> (str \<times> str \<times> str) list" where
  "apply_learned_cross_matches learned unmatched_citations uncited_refs =
     (if cross_matches learned = [] then []
      else concat (map
        (\<lambda>cm.
           case (report_lookup unmatched_citations
                   (lower (get_or [] (cm_author cm)), get_or [] (cm_cite_year cm)),
                 report_lookup uncited_refs
                   (lower (get_or [] (cm_author cm)), get_or [] (cm_ref_year cm))) of
             (Some c, Some r) \<Rightarrow>
               [(c, r, get_or (u ''learned from previous Opus verification'') (cm_reason cm))]
           | _ \<Rightarrow> [])
        (cross_matches learned)))"

text \<open>
  The state of \<^verbatim>\<open>main\<close> between the two highlighting passes and the writing of the
  outputs: the document, and the counters and lists of the report.
\<close>

record run_state =
  doc :: document
  body_matched :: int
  body_fuzzy :: int
  body_unmatched :: int
  unmatched_list :: "str list"
  fuzzy_cite_list :: "str list"
  ref_cited :: int
  ref_fuzzy :: int
  ref_uncited :: int
  uncited_list :: "str list"
  fuzzy_ref_list :: "str list"

text \<open>The body of the loop over the auto-matches in \<^verbatim>\<open>main\<close>.\<close>

definition move_citation :: "str \<Rightarrow> run_state \<Rightarrow> run_state" where
  "move_citation cite_str st =
     (if cite_str \<in> set (unmatched_list st)
      then st\<lparr>unmatched_list := remove1 cite_str (unmatched_list st),
              fuzzy_cite_list := fuzzy_cite_list st @ [cite_str],
              body_unmatched := body_unmatched st - 1,
              body_fuzzy := body_fuzzy st + 1\<rparr>
      else st)"

definition move_reference :: "str \<Rightarrow> run_state \<Rightarrow> run_state" where
  "move_reference ref_str st =
     (if ref_str \<in> set (uncited_list st)
      then st\<lparr>uncited_list := remove1 ref_str (uncited_list st),
              fuzzy_ref_list := fuzzy_ref_list st @ [ref_str],
              ref_uncited := ref_uncited st - 1,
              ref_fuzzy := ref_fuzzy st + 1\<rparr>
      else st)"

definition reclassify :: "run_state \<Rightarrow> str \<times> str \<times> str \<Rightarrow> run_state" where
  "reclassify st auto_match = move_reference (fst (snd auto_match)) (move_citation (fst auto_match) st)"

definition apply_auto_matches :: "learned_patterns \<Rightarrow> run_state \<Rightarrow> run_state" where
  "apply_auto_matches learned st =
     foldl reclassify st
       (apply_learned_cross_matches learned (unmatched_list st) (uncited_list st))"

chapter \<open>Properties\<close>

section \<open>The year suffix\<close>

lemma match_at_suffix:
  "match_at rx_suffix p rest =
     (case rest of [] \<Rightarrow> None
      | c # cs \<Rightarrow> if is_az c \<and> (cs = [] \<or> cs = [10]) then Some (p, Suc p, []) else None)"
  by (cases rest) (auto simp: match_at_def rx_suffix_def)

lemma sub_scan_suffix:
  "10 \<notin> set rest \<Longrightarrow>
   sub_scan rx_suffix [] p rest = (if rest \<noteq> [] \<and> is_az (last rest) then butlast rest else rest)"
proof (induction rest arbitrary: p)
  case Nil
  show ?case by (simp add: match_at_suffix)
next
  case (Cons c cs)
  then have ih: "\<And>q. sub_scan rx_suffix [] q cs = (if cs \<noteq> [] \<and> is_az (last cs) then butlast cs else cs)"
    by simp
  from Cons.prems have n: "cs \<noteq> [10]" by auto
  show ?case
    using n by (simp add: match_at_suffix ih)
qed

lemma strip_year_suffix_plain:
  "10 \<notin> set y \<Longrightarrow> strip_year_suffix y = (if y \<noteq> [] \<and> is_az (last y) then butlast y else y)"
  by (simp add: strip_year_suffix_def re_sub_def sub_scan_suffix)

text \<open>
  C8, as stated, fails: the function removes one trailing lowercase letter each time it
  is applied, so on a string that ends in two of them the second application removes
  another one.
\<close>

theorem strip_year_suffix_not_idempotent:
  "strip_year_suffix (strip_year_suffix (u ''ab'')) \<noteq> strip_year_suffix (u ''ab'')"
  by (simp add: strip_year_suffix_def re_sub_def match_at_suffix u_def is_az_def)

text \<open>
  C8, amended. On a string without a newline \<open>strip_year_suffix\<close> removes a single
  trailing lowercase letter if there is one and changes nothing otherwise; it is
  idempotent on every such string that does not end in two lowercase letters, which
  covers every year the recognizers produce (four digits and at most one letter).
\<close>

theorem strip_year_suffix_single_letter:
  "10 \<notin> set y \<Longrightarrow>
     strip_year_suffix y = (if y \<noteq> [] \<and> is_az (last y) then butlast y else y) \<and>
     (\<not> (2 \<le> length y \<and> is_az (last y) \<and> is_az (last (butlast y))) \<longrightarrow>
        strip_year_suffix (strip_year_suffix y) = strip_year_suffix y)"
proof -
  assume nl: "10 \<notin> set y"
  have a: "strip_year_suffix y = (if y \<noteq> [] \<and> is_az (last y) then butlast y else y)"
    using nl by (rule strip_year_suffix_plain)
  have nl': "10 \<notin> set (strip_year_suffix y)"
    using nl a by (auto dest: in_set_butlastD)
  have b: "strip_year_suffix (strip_year_suffix y) = strip_year_suffix y"
    if h: "\<not> (2 \<le> length y \<and> is_az (last y) \<and> is_az (last (butlast y)))"
  proof (cases "y \<noteq> [] \<and> is_az (last y)")
    case True
    then have s: "strip_year_suffix y = butlast y" using a by simp
    have "butlast y = [] \<or> \<not> is_az (last (butlast y))"
      using h True by (cases y rule: rev_cases) (auto simp: Suc_le_eq)
    then show ?thesis
      using strip_year_suffix_plain [OF nl'] s by auto
  next
    case False
    with a have "strip_year_suffix y = y" by auto
    then show ?thesis by simp
  qed
  show ?thesis using a b by blast
qed

theorem strip_year_suffix_single_letter_witness:
  "10 \<notin> set (u ''1912a'') \<and>
   strip_year_suffix (u ''1912a'') = u ''1912'' \<and>
   \<not> (2 \<le> length (u ''1912a'') \<and> is_az (last (u ''1912a'')) \<and> is_az (last (butlast (u ''1912a'')))) \<and>
   strip_year_suffix (strip_year_suffix (u ''1912a'')) = strip_year_suffix (u ''1912a'')"
  using strip_year_suffix_single_letter [of "u ''1912a''"]
  by (simp add: strip_year_suffix_def re_sub_def match_at_suffix u_def is_az_def)

section \<open>The matcher\<close>

lemma find_first_split:
  "find P xs = Some x \<Longrightarrow> \<exists>pre post. xs = pre @ x # post \<and> P x \<and> list_all (\<lambda>p. \<not> P p) pre"
proof (induction xs)
  case Nil
  then show ?case by simp
next
  case (Cons a xs)
  show ?case
  proof (cases "P a")
    case True
    with Cons.prems have "x = a" by simp
    with True have "a # xs = [] @ x # xs \<and> P x \<and> list_all (\<lambda>p. \<not> P p) []" by simp
    then show ?thesis by blast
  next
    case False
    with Cons obtain pre post where "xs = pre @ x # post" "P x" "list_all (\<lambda>p. \<not> P p) pre"
      by auto
    with False have "a # xs = (a # pre) @ x # post \<and> P x \<and> list_all (\<lambda>p. \<not> P p) (a # pre)" by simp
    then show ?thesis by blast
  qed
qed

text \<open>
  C2. The matcher decides in this order: (1) the key itself is in the set: exact;
  (2) else the year has a suffix and the key with the base year is in the set: fuzzy
  with that key; (3) else the fuzzy index has the base key and a candidate there whose
  year differs from the query's: fuzzy with the first such candidate; (4) else no match.
  \<open>fuzzy_match_reference\<close> is the same function of the citation-side set and index.
\<close>

theorem matcher_order:
  "((surname, year) \<in> refs \<longrightarrow>
      fuzzy_match_citation surname year refs idx = Exact (surname, year)) \<and>
   ((surname, year) \<notin> refs \<and> strip_year_suffix year \<noteq> year \<and>
    (surname, strip_year_suffix year) \<in> refs \<longrightarrow>
      fuzzy_match_citation surname year refs idx = Fuzzy (surname, strip_year_suffix year)) \<and>
   ((surname, year) \<notin> refs \<and>
    \<not> (strip_year_suffix year \<noteq> year \<and> (surname, strip_year_suffix year) \<in> refs) \<and>
    idx (surname, strip_year_suffix year) = Some candidates \<and>
    (\<exists>c \<in> set candidates. snd c \<noteq> year) \<longrightarrow>
      (\<exists>pre c post. candidates = pre @ c # post \<and> snd c \<noteq> year \<and>
         list_all (\<lambda>p. snd p = year) pre \<and>
         fuzzy_match_citation surname year refs idx = Fuzzy c)) \<and>
   ((surname, year) \<notin> refs \<and>
    \<not> (strip_year_suffix year \<noteq> year \<and> (surname, strip_year_suffix year) \<in> refs) \<and>
    (idx (surname, strip_year_suffix year) = None \<or>
     (\<exists>candidates. idx (surname, strip_year_suffix year) = Some candidates \<and>
        list_all (\<lambda>p. snd p = year) candidates)) \<longrightarrow>
      fuzzy_match_citation surname year refs idx = NoMatch) \<and>
   fuzzy_match_reference surname year refs idx = fuzzy_match_citation surname year refs idx"
proof -
  let ?P = "\<lambda>(ref_surname :: str, ref_year). ref_year \<noteq> year"
  have c1: "(surname, year) \<in> refs \<longrightarrow>
      fuzzy_match_citation surname year refs idx = Exact (surname, year)"
    by (simp add: fuzzy_match_citation_def)
  have c2: "(surname, year) \<notin> refs \<and> strip_year_suffix year \<noteq> year \<and>
    (surname, strip_year_suffix year) \<in> refs \<longrightarrow>
      fuzzy_match_citation surname year refs idx = Fuzzy (surname, strip_year_suffix year)"
    by (simp add: fuzzy_match_citation_def)
  have c3: "(surname, year) \<notin> refs \<and>
    \<not> (strip_year_suffix year \<noteq> year \<and> (surname, strip_year_suffix year) \<in> refs) \<and>
    idx (surname, strip_year_suffix year) = Some candidates \<and>
    (\<exists>c \<in> set candidates. snd c \<noteq> year) \<longrightarrow>
      (\<exists>pre c post. candidates = pre @ c # post \<and> snd c \<noteq> year \<and>
         list_all (\<lambda>p. snd p = year) pre \<and>
         fuzzy_match_citation surname year refs idx = Fuzzy c)"
  proof (intro impI, elim conjE)
    assume a: "(surname, year) \<notin> refs"
      "\<not> (strip_year_suffix year \<noteq> year \<and> (surname, strip_year_suffix year) \<in> refs)"
      "idx (surname, strip_year_suffix year) = Some candidates"
      "\<exists>c \<in> set candidates. snd c \<noteq> year"
    from a(4) obtain c0 where "c0 \<in> set candidates" "snd c0 \<noteq> year" by blast
    then have "\<exists>x. x \<in> set candidates \<and> ?P x"
      by (intro exI [of _ c0]) (simp add: case_prod_beta)
    then have "find ?P candidates \<noteq> None"
      by (simp add: find_None_iff)
    then obtain c where f: "find ?P candidates = Some c" by auto
    from find_first_split [OF f] obtain pre post where
      s: "candidates = pre @ c # post" "?P c" "list_all (\<lambda>p. \<not> ?P p) pre" by blast
    have r: "fuzzy_match_citation surname year refs idx = Fuzzy c"
      using a(1,2,3) f by (auto simp: fuzzy_match_citation_def)
    have "list_all (\<lambda>p. snd p = year) pre"
      using s(3) by (auto simp: list_all_iff)
    moreover have "snd c \<noteq> year" using s(2) by (cases c) simp
    ultimately show "\<exists>pre c post. candidates = pre @ c # post \<and> snd c \<noteq> year \<and>
         list_all (\<lambda>p. snd p = year) pre \<and>
         fuzzy_match_citation surname year refs idx = Fuzzy c"
      using s(1) r by blast
  qed
  have c4: "(surname, year) \<notin> refs \<and>
    \<not> (strip_year_suffix year \<noteq> year \<and> (surname, strip_year_suffix year) \<in> refs) \<and>
    (idx (surname, strip_year_suffix year) = None \<or>
     (\<exists>candidates. idx (surname, strip_year_suffix year) = Some candidates \<and>
        list_all (\<lambda>p. snd p = year) candidates)) \<longrightarrow>
      fuzzy_match_citation surname year refs idx = NoMatch"
  proof (intro impI, elim conjE)
    assume a: "(surname, year) \<notin> refs"
      "\<not> (strip_year_suffix year \<noteq> year \<and> (surname, strip_year_suffix year) \<in> refs)"
      "idx (surname, strip_year_suffix year) = None \<or>
       (\<exists>candidates. idx (surname, strip_year_suffix year) = Some candidates \<and>
        list_all (\<lambda>p. snd p = year) candidates)"
    from a(3) show "fuzzy_match_citation surname year refs idx = NoMatch"
    proof
      assume "idx (surname, strip_year_suffix year) = None"
      then show ?thesis using a(1,2) by (auto simp: fuzzy_match_citation_def)
    next
      assume "\<exists>candidates. idx (surname, strip_year_suffix year) = Some candidates \<and>
        list_all (\<lambda>p. snd p = year) candidates"
      then obtain cs where cs: "idx (surname, strip_year_suffix year) = Some cs"
        "list_all (\<lambda>p. snd p = year) cs" by blast
      from cs(2) have "find ?P cs = None"
        by (auto simp: find_None_iff list_all_iff)
      then show ?thesis using a(1,2) cs(1) by (auto simp: fuzzy_match_citation_def)
    qed
  qed
  have c5: "fuzzy_match_reference surname year refs idx = fuzzy_match_citation surname year refs idx"
    by (simp add: fuzzy_match_reference_def fuzzy_match_citation_def)
  show ?thesis using c1 c2 c3 c4 c5 by blast
qed

text \<open>
  The four cases at concrete inputs: a citation of \<open>Freud (1912a)\<close> found as it is; of
  \<open>Freud (1912a)\<close> against a list that has \<open>Freud (1912)\<close>; of \<open>Freud (1912)\<close> against
  a list whose index has \<open>Freud (1912b)\<close>; and of \<open>Smith (2009)\<close>, which is not there.
\<close>

theorem matcher_order_witness:
  "(u ''Freud'', u ''1912a'') \<in> {(u ''Freud'', u ''1912a'')} \<and>
   fuzzy_match_citation (u ''Freud'') (u ''1912a'') {(u ''Freud'', u ''1912a'')} Map.empty
     = Exact (u ''Freud'', u ''1912a'') \<and>
   (u ''Freud'', u ''1912a'') \<notin> {(u ''Freud'', u ''1912'')} \<and>
   strip_year_suffix (u ''1912a'') \<noteq> u ''1912a'' \<and>
   (u ''Freud'', strip_year_suffix (u ''1912a'')) \<in> {(u ''Freud'', u ''1912'')} \<and>
   fuzzy_match_citation (u ''Freud'') (u ''1912a'') {(u ''Freud'', u ''1912'')} Map.empty
     = Fuzzy (u ''Freud'', u ''1912'') \<and>
   (u ''Freud'', u ''1912'') \<notin> {(u ''Freud'', u ''1912b'')} \<and>
   fuzzy_match_citation (u ''Freud'') (u ''1912'') {(u ''Freud'', u ''1912b'')}
       [(u ''Freud'', u ''1912'') \<mapsto> [(u ''Freud'', u ''1912b'')]]
     = Fuzzy (u ''Freud'', u ''1912b'') \<and>
   (u ''Smith'', u ''2009'') \<notin> {(u ''Freud'', u ''1912b'')} \<and>
   fuzzy_match_citation (u ''Smith'') (u ''2009'') {(u ''Freud'', u ''1912b'')}
       [(u ''Freud'', u ''1912'') \<mapsto> [(u ''Freud'', u ''1912b'')]]
     = NoMatch \<and>
   fuzzy_match_reference (u ''Smith'') (u ''2009'') {(u ''Freud'', u ''1912b'')}
       [(u ''Freud'', u ''1912'') \<mapsto> [(u ''Freud'', u ''1912b'')]]
     = NoMatch"
proof -
  note ev = strip_year_suffix_def re_sub_def match_at_suffix u_def is_az_def
  have c1: "fuzzy_match_citation (u ''Freud'') (u ''1912a'') {(u ''Freud'', u ''1912a'')} Map.empty
     = Exact (u ''Freud'', u ''1912a'')"
    using matcher_order [of "u ''Freud''" "u ''1912a''" "{(u ''Freud'', u ''1912a'')}" Map.empty "[]"]
    by simp
  have h2: "strip_year_suffix (u ''1912a'') = u ''1912''"
    by (simp add: ev)
  have c2: "fuzzy_match_citation (u ''Freud'') (u ''1912a'') {(u ''Freud'', u ''1912'')} Map.empty
     = Fuzzy (u ''Freud'', u ''1912'')"
    using matcher_order [of "u ''Freud''" "u ''1912a''" "{(u ''Freud'', u ''1912'')}" Map.empty "[]"]
    by (simp add: ev)
  have c3: "fuzzy_match_citation (u ''Freud'') (u ''1912'') {(u ''Freud'', u ''1912b'')}
       [(u ''Freud'', u ''1912'') \<mapsto> [(u ''Freud'', u ''1912b'')]]
     = Fuzzy (u ''Freud'', u ''1912b'')"
    using matcher_order [of "u ''Freud''" "u ''1912''" "{(u ''Freud'', u ''1912b'')}"
      "[(u ''Freud'', u ''1912'') \<mapsto> [(u ''Freud'', u ''1912b'')]]" "[(u ''Freud'', u ''1912b'')]"]
    by (auto simp: ev Cons_eq_append_conv)
  have c4: "fuzzy_match_citation (u ''Smith'') (u ''2009'') {(u ''Freud'', u ''1912b'')}
       [(u ''Freud'', u ''1912'') \<mapsto> [(u ''Freud'', u ''1912b'')]] = NoMatch
     \<and> fuzzy_match_reference (u ''Smith'') (u ''2009'') {(u ''Freud'', u ''1912b'')}
       [(u ''Freud'', u ''1912'') \<mapsto> [(u ''Freud'', u ''1912b'')]] = NoMatch"
    using matcher_order [of "u ''Smith''" "u ''2009''" "{(u ''Freud'', u ''1912b'')}"
      "[(u ''Freud'', u ''1912'') \<mapsto> [(u ''Freud'', u ''1912b'')]]" "[]"]
    by (simp add: ev)
  show ?thesis
    using c1 c2 c3 c4 h2 by (simp add: ev)
qed

section \<open>The colour of a block\<close>





section \<open>Overlapping spans\<close>

text \<open>
  C1 fails on the code. The overlap test asks whether the start or the end of the
  candidate lies inside an accepted span; a candidate that encloses an accepted span
  passes it. In the paragraph \<open>(Smith [2009])\<close> recognizer 4a accepts
  \<open>Smith [2009]\<close> at offsets 1 to 13, and the parenthetical recognizer then accepts
  the whole of it at offsets 0 to 14, for the same key: two accepted spans that overlap.
\<close>

theorem overlap_check_misses_enclosing_span:
  "map (\<lambda>h. (cs_start h, cs_end h, cs_keys h, cs_recognizer h))
     (locate_spans NOISE_WORDS {} Map.empty (u ''(Smith [2009])''))
   = [(1, 13, [(u ''Smith'', u ''2009'')], Bracket),
      (0, 14, [(u ''Smith'', u ''2009'')], Parenthetical)] \<and>
   \<not> overlaps_accepted
        [\<lparr>cs_start = 1, cs_end = 13, cs_keys = [(u ''Smith'', u ''2009'')],
          cs_color = YELLOW_HIGHLIGHT, cs_recognizer = Bracket\<rparr>] 0 14 \<and>
   (1::nat) < 14 \<and> (0::nat) < 13"
  by code_simp

section \<open>Splitting a run\<close>

text \<open>
  C9 fails on the code. \<open>split_run\<close> reads the text of the run, tab included, removes
  only the \<^verbatim>\<open>w:t\<close> children and appends the two halves of the text as new \<^verbatim>\<open>w:t\<close>
  children: a \<^verbatim>\<open>w:tab\<close> child stays in both runs and its tab is in the new text as
  well. A run that reads \<open>a<TAB>b\<close>, split at offset 2, gives runs that read
  \<open><TAB>a<TAB>\<close> and \<open><TAB>b\<close>, and highlighting the span from 0 to 2 of a paragraph
  made of this run changes the text of the paragraph.
\<close>

theorem split_run_duplicates_tab:
  "run_text \<lparr>highlight_val = None, children = [WT (u ''a''), WTab, WT (u ''b'')]\<rparr> = [97, 9, 98] \<and>
   run_text (fst (split_run \<lparr>highlight_val = None, children = [WT (u ''a''), WTab, WT (u ''b'')]\<rparr> 2))
     @ run_text (snd (split_run \<lparr>highlight_val = None, children = [WT (u ''a''), WTab, WT (u ''b'')]\<rparr> 2))
     = [9, 97, 9, 9, 98] \<and>
   para_text [\<lparr>highlight_val = None, children = [WT (u ''a''), WTab, WT (u ''b'')]\<rparr>] = [97, 9, 98] \<and>
   para_text (highlight_span_in_paragraph
       [\<lparr>highlight_val = None, children = [WT (u ''a''), WTab, WT (u ''b'')]\<rparr>] 0 2 YELLOW_HIGHLIGHT)
     = [9, 97, 9, 9, 98]"
  by code_simp

section \<open>Learned cross-matches\<close>

lemma report_lookup_value_aux:
  "foldl (\<lambda>lookup c.
              case re_match rx_report_key c of
                None \<Rightarrow> lookup
              | Some m \<Rightarrow> lookup((lower (mgroup c m 1), mgroup c m 2) \<mapsto> c)) lk items k = Some v
   \<Longrightarrow> v \<in> set items \<or> lk k = Some v"
proof (induction items arbitrary: lk)
  case Nil
  then show ?case by simp
next
  case (Cons c items)
  from Cons.IH [OF Cons.prems [simplified]] show ?case
    by (auto split: option.splits if_splits)
qed

lemma report_lookup_value: "report_lookup items k = Some v \<Longrightarrow> v \<in> set items"
  using report_lookup_value_aux [of Map.empty items k v] by (simp add: report_lookup_def)

lemma auto_matches_present:
  "am \<in> set (apply_learned_cross_matches learned unmatched uncited) \<Longrightarrow>
     fst am \<in> set unmatched \<and> fst (snd am) \<in> set uncited"
  by (auto simp: apply_learned_cross_matches_def split: if_splits option.splits
      dest: report_lookup_value report_lookup_value [OF sym])

lemma doc_move_citation [simp]: "doc (move_citation c st) = doc st"
  by (simp add: move_citation_def)

lemma doc_move_reference [simp]: "doc (move_reference r st) = doc st"
  by (simp add: move_reference_def)

lemma doc_reclassify [simp]: "doc (reclassify st am) = doc st"
  by (simp add: reclassify_def)

lemma doc_foldl_reclassify: "doc (foldl reclassify st ams) = doc st"
  by (induction ams arbitrary: st) simp_all

text \<open>
  C10. When a learned cross-match fires with its citation string among the unmatched
  citations and its reference string among the uncited references, the step of the loop
  in \<^verbatim>\<open>main\<close> moves the two strings to the fuzzy lists, takes one from each of the
  unmatched and uncited counters and adds one to each fuzzy counter; every other
  component of the state, the document with its highlights among them, is as before.
  The whole loop leaves the document as it was, and every auto-match it goes through
  has both its strings in the lists the run produced.
\<close>

theorem cross_match_updates_report_only:
  "cite_str \<in> set (unmatched_list st) \<Longrightarrow> ref_str \<in> set (uncited_list st) \<Longrightarrow>
     reclassify st (cite_str, ref_str, reason) =
       st\<lparr>unmatched_list := remove1 cite_str (unmatched_list st),
          fuzzy_cite_list := fuzzy_cite_list st @ [cite_str],
          body_unmatched := body_unmatched st - 1,
          body_fuzzy := body_fuzzy st + 1,
          uncited_list := remove1 ref_str (uncited_list st),
          fuzzy_ref_list := fuzzy_ref_list st @ [ref_str],
          ref_uncited := ref_uncited st - 1,
          ref_fuzzy := ref_fuzzy st + 1\<rparr> \<and>
     doc (reclassify st (cite_str, ref_str, reason)) = doc st \<and>
     doc (apply_auto_matches learned st) = doc st \<and>
     list_all (\<lambda>am. fst am \<in> set (unmatched_list st) \<and> fst (snd am) \<in> set (uncited_list st))
       (apply_learned_cross_matches learned (unmatched_list st) (uncited_list st))"
proof -
  assume c: "cite_str \<in> set (unmatched_list st)" and r: "ref_str \<in> set (uncited_list st)"
  have 1: "reclassify st (cite_str, ref_str, reason) =
       st\<lparr>unmatched_list := remove1 cite_str (unmatched_list st),
          fuzzy_cite_list := fuzzy_cite_list st @ [cite_str],
          body_unmatched := body_unmatched st - 1,
          body_fuzzy := body_fuzzy st + 1,
          uncited_list := remove1 ref_str (uncited_list st),
          fuzzy_ref_list := fuzzy_ref_list st @ [ref_str],
          ref_uncited := ref_uncited st - 1,
          ref_fuzzy := ref_fuzzy st + 1\<rparr>"
    using c r by (simp add: reclassify_def move_citation_def move_reference_def)
  have 3: "doc (apply_auto_matches learned st) = doc st"
    by (simp add: apply_auto_matches_def doc_foldl_reclassify)
  have 4: "list_all (\<lambda>am. fst am \<in> set (unmatched_list st) \<and> fst (snd am) \<in> set (uncited_list st))
       (apply_learned_cross_matches learned (unmatched_list st) (uncited_list st))"
    unfolding list_all_iff using auto_matches_present by blast
  show ?thesis using 1 3 4 by simp
qed

text \<open>
  A run that left \<open>Klein (1946)\<close> unmatched (yellow) and \<open>Klein (1946a)\<close> uncited
  (red), with the learned record that joins them.
\<close>

definition example_state :: run_state where
  "example_state =
     \<lparr>doc = [[\<lparr>highlight_val = Some YELLOW_HIGHLIGHT, children = [WT (u ''Klein (1946)'')]\<rparr>],
             [\<lparr>highlight_val = None, children = [WT (u ''References'')]\<rparr>],
             [\<lparr>highlight_val = Some RED_HIGHLIGHT, children = [WT (u ''Klein, M. (1946a)'')]\<rparr>]],
      body_matched = 0, body_fuzzy = 0, body_unmatched = 1,
      unmatched_list = [u ''Klein (1946)''], fuzzy_cite_list = [],
      ref_cited = 0, ref_fuzzy = 0, ref_uncited = 1,
      uncited_list = [u ''Klein (1946a)''], fuzzy_ref_list = []\<rparr>"

definition example_learned :: learned_patterns where
  "example_learned =
     \<lparr>noise_words = [],
      cross_matches = [\<lparr>cm_author = Some (u ''Klein''), cm_cite_year = Some (u ''1946''),
                        cm_ref_year = Some (u ''1946a''), cm_reason = None\<rparr>]\<rparr>"

theorem cross_match_updates_report_only_witness:
  "apply_learned_cross_matches example_learned (unmatched_list example_state) (uncited_list example_state)
     = [(u ''Klein (1946)'', u ''Klein (1946a)'', u ''learned from previous Opus verification'')] \<and>
   u ''Klein (1946)'' \<in> set (unmatched_list example_state) \<and>
   u ''Klein (1946a)'' \<in> set (uncited_list example_state) \<and>
   body_unmatched (apply_auto_matches example_learned example_state) = 0 \<and>
   body_fuzzy (apply_auto_matches example_learned example_state) = 1 \<and>
   ref_uncited (apply_auto_matches example_learned example_state) = 0 \<and>
   ref_fuzzy (apply_auto_matches example_learned example_state) = 1 \<and>
   unmatched_list (apply_auto_matches example_learned example_state) = [] \<and>
   fuzzy_cite_list (apply_auto_matches example_learned example_state) = [u ''Klein (1946)''] \<and>
   doc (apply_auto_matches example_learned example_state) = doc example_state"
proof -
  have a: "apply_learned_cross_matches example_learned (unmatched_list example_state)
       (uncited_list example_state)
     = [(u ''Klein (1946)'', u ''Klein (1946a)'', u ''learned from previous Opus verification'')]"
    by code_simp
  have m: "u ''Klein (1946)'' \<in> set (unmatched_list example_state)"
    "u ''Klein (1946a)'' \<in> set (uncited_list example_state)"
    by (simp_all add: example_state_def)
  have s: "apply_auto_matches example_learned example_state =
     reclassify example_state
       (u ''Klein (1946)'', u ''Klein (1946a)'', u ''learned from previous Opus verification'')"
    by (simp add: apply_auto_matches_def a)
  show ?thesis
    using cross_match_updates_report_only [OF m,
        of "u ''learned from previous Opus verification''" example_learned] a m
    by (simp add: s) (simp add: example_state_def)
qed

section \<open>Reference suffixes\<close>

lemma base_counts_aux:
  "foldl (\<lambda>counts r. counts(base_key r := counts (base_key r) + 1)) c raw b
     = c b + length (filter (\<lambda>r. base_key r = b) raw)"
  by (induction raw arbitrary: c) auto

lemma base_counts_length: "base_counts raw b = length (filter (\<lambda>r. base_key r = b) raw)"
  unfolding base_counts_def base_counts_aux by simp

text \<open>The letter the tracker hands out next for a base key.\<close>

definition next_letter :: "(key \<rightharpoonup> nat) \<Rightarrow> key \<Rightarrow> nat" where
  "next_letter tr b = (case tr b of None \<Rightarrow> 97 | Some k \<Rightarrow> k)"

text \<open>
  The size of the group of entry \<open>i\<close>, the number of entries of its group before it
  whose year has no suffix, and the keys the entry adds to the set.
\<close>

definition group_size :: "(str \<times> str \<times> nat) list \<Rightarrow> nat \<Rightarrow> nat" where
  "group_size raw i = length (filter (\<lambda>r. base_key r = base_key (raw ! i)) raw)"

definition unsuffixed_before :: "(str \<times> str \<times> nat) list \<Rightarrow> nat \<Rightarrow> nat" where
  "unsuffixed_before raw i =
     length (filter (\<lambda>r. base_key r = base_key (raw ! i) \<and> \<not> has_suffix (fst (snd r)))
               (take i raw))"

definition entry_keys :: "(str \<times> str \<times> nat) list \<Rightarrow> nat \<Rightarrow> key set" where
  "entry_keys raw i =
     (if 1 < group_size raw i \<and> \<not> has_suffix (fst (snd (raw ! i)))
      then {(fst (raw ! i), fst (snd (raw ! i)) @ [97 + unsuffixed_before raw i]),
            (fst (raw ! i), fst (snd (raw ! i)))}
      else {(fst (raw ! i), fst (snd (raw ! i)))})"

text \<open>The keys of an entry, for the second loop started with any counts and tracker.\<close>

definition loop_keys ::
    "(key \<Rightarrow> nat) \<Rightarrow> (key \<rightharpoonup> nat) \<Rightarrow> (str \<times> str \<times> nat) list \<Rightarrow> nat \<Rightarrow> key set" where
  "loop_keys counts tr raw i =
     (if 1 < counts (base_key (raw ! i)) \<and> \<not> has_suffix (fst (snd (raw ! i)))
      then {(fst (raw ! i),
             fst (snd (raw ! i)) @ [next_letter tr (base_key (raw ! i)) + unsuffixed_before raw i]),
            (fst (raw ! i), fst (snd (raw ! i)))}
      else {(fst (raw ! i), fst (snd (raw ! i)))})"

lemma UN_lessThan_Suc_shift: "(\<Union>i<Suc n. f i) = f 0 \<union> (\<Union>i<n. f (Suc i))"
  by (simp add: lessThan_Suc_eq_insert_0 image_comp)

lemma loop_keys_shift:
  assumes "i < length raw"
  shows "loop_keys counts tr ((s0, y0, p0) # raw) (Suc i) =
         loop_keys counts
           (if 1 < counts (s0, strip_year_suffix y0) \<and> \<not> has_suffix y0
            then tr((s0, strip_year_suffix y0) \<mapsto> next_letter tr (s0, strip_year_suffix y0) + 1)
            else tr) raw i"
proof -
  let ?r = "(s0, y0, p0)"
  let ?c = "(s0, strip_year_suffix y0)"
  let ?b = "base_key (raw ! i)"
  let ?t = "if 1 < counts ?c \<and> \<not> has_suffix y0 then tr(?c \<mapsto> next_letter tr ?c + 1) else tr"
  have c: "base_key ?r = ?c" by (simp add: base_key_def)
  have "next_letter tr ?b + unsuffixed_before (?r # raw) (Suc i)
      = next_letter ?t ?b + unsuffixed_before raw i"
    if "1 < counts ?b"
    using that c by (auto simp: unsuffixed_before_def next_letter_def)
  then show ?thesis by (simp add: loop_keys_def)
qed

lemma assign_suffixes_set:
  "set (assign_suffixes counts tr raw) = (\<Union>i<length raw. loop_keys counts tr raw i)"
proof (induction raw arbitrary: tr)
  case Nil
  then show ?case by simp
next
  case (Cons r raw)
  obtain s0 y0 p0 where r: "r = (s0, y0, p0)" by (cases r) auto
  let ?c = "(s0, strip_year_suffix y0)"
  let ?t = "if 1 < counts ?c \<and> \<not> has_suffix y0 then tr(?c \<mapsto> next_letter tr ?c + 1) else tr"
  have step: "set (assign_suffixes counts tr (r # raw)) =
      loop_keys counts tr (r # raw) 0 \<union> set (assign_suffixes counts ?t raw)"
    using r
    by (auto simp: loop_keys_def unsuffixed_before_def next_letter_def base_key_def
             split: option.splits)
  have "(\<Union>i<length raw. loop_keys counts tr (r # raw) (Suc i)) =
        (\<Union>i<length raw. loop_keys counts ?t raw i)"
    using r loop_keys_shift [of _ raw counts tr s0 y0 p0] by simp
  with step Cons.IH [of ?t] show ?case
    by (simp only: UN_lessThan_Suc_shift length_Cons)
qed

lemma suffixed_refs_keys: "suffixed_refs raw = (\<Union>i<length raw. entry_keys raw i)"
proof -
  have "loop_keys (base_counts raw) Map.empty raw i = entry_keys raw i" for i
    by (simp add: loop_keys_def entry_keys_def group_size_def base_counts_length next_letter_def)
  then show ?thesis by (simp add: suffixed_refs_def assign_suffixes_set)
qed

text \<open>
  C3. Two entries \<open>Klein, M. (1946a)\<close> and \<open>Klein, M. (1946)\<close> form a group of two.
  The second has no suffix and is handed the letter \<open>a\<close>, which the first already
  carries: the letters start at \<open>a\<close> for every group and the letters that members
  carry are not consulted. The set is \<open>(Klein, 1946a)\<close>, \<open>(Klein, 1946)\<close>, and the
  next unused letter, \<open>b\<close>, is not given.
\<close>

theorem suffix_assignment_reuses_letter:
  "raw_refs 1 [u ''Klein, M. (1946a). Notes on some schizoid mechanisms.'',
               u ''Klein, M. (1946). Envy and gratitude.'']
     = [(u ''Klein'', u ''1946a'', 1), (u ''Klein'', u ''1946'', 2)] \<and>
   extract_references_from_doc
     [[\<lparr>highlight_val = None, children = [WT (u ''References'')]\<rparr>],
      [\<lparr>highlight_val = None,
        children = [WT (u ''Klein, M. (1946a). Notes on some schizoid mechanisms.'')]\<rparr>],
      [\<lparr>highlight_val = None, children = [WT (u ''Klein, M. (1946). Envy and gratitude.'')]\<rparr>]] 0
     = {(u ''Klein'', u ''1946a''), (u ''Klein'', u ''1946'')}"
  by code_simp

text \<open>
  C3, as the program has it. The raw entries are grouped by surname and base year. An
  entry whose group has more than one member and whose year has no letter suffix adds
  two keys: the key as it was found, and the key with the letter of code point
  \<open>97 + j\<close> appended to the year, where \<open>j\<close> is the number of entries of its group
  before it in the document whose year has no suffix (the first gets \<open>a\<close>, the next
  \<open>b\<close>, and so on). Every other entry adds its key as found, and the set holds nothing
  else. When no entry of the group has a suffix, \<open>j\<close> is the number of entries of the
  group before it, so the letter is the next unused one. For the bibliography with the
  two entries \<open>Klein, M. (1946).\<close> the set is \<open>(Klein, 1946a)\<close>,
  \<open>(Klein, 1946b)\<close> and \<open>(Klein, 1946)\<close>.
\<close>

theorem suffix_auto_assignment:
  "(let raw = raw_refs (ref_para_idx + 1) (map para_text (drop (ref_para_idx + 1) docx)) in
      extract_references_from_doc docx ref_para_idx = (\<Union>i<length raw. entry_keys raw i) \<and>
      (i < length raw \<and>
       (\<forall>r \<in> set raw. base_key r = base_key (raw ! i) \<longrightarrow> \<not> has_suffix (fst (snd r))) \<longrightarrow>
         unsuffixed_before raw i
           = length (filter (\<lambda>r. base_key r = base_key (raw ! i)) (take i raw)))) \<and>
   extract_references_from_doc
     [[\<lparr>highlight_val = None, children = [WT (u ''References'')]\<rparr>],
      [\<lparr>highlight_val = None, children = [WT (u ''Klein, M. (1946).'')]\<rparr>],
      [\<lparr>highlight_val = None, children = [WT (u ''Klein, M. (1946).'')]\<rparr>]] 0
     = {(u ''Klein'', u ''1946a''), (u ''Klein'', u ''1946b''), (u ''Klein'', u ''1946'')}"
proof -
  have a: "extract_references_from_doc docx ref_para_idx = (\<Union>i<length raw. entry_keys raw i)"
    if "raw = raw_refs (ref_para_idx + 1) (map para_text (drop (ref_para_idx + 1) docx))" for raw
    using that by (simp add: extract_references_from_doc_def suffixed_refs_keys)
  have b: "unsuffixed_before raw i
           = length (filter (\<lambda>r. base_key r = base_key (raw ! i)) (take i raw))"
    if "\<forall>r \<in> set raw. base_key r = base_key (raw ! i) \<longrightarrow> \<not> has_suffix (fst (snd r))"
    for raw :: "(str \<times> str \<times> nat) list"
  proof -
    have "filter (\<lambda>r. base_key r = base_key (raw ! i) \<and> \<not> has_suffix (fst (snd r))) (take i raw)
        = filter (\<lambda>r. base_key r = base_key (raw ! i)) (take i raw)"
      using that by (intro filter_cong refl) (auto dest: in_set_takeD)
    then show ?thesis by (simp add: unsuffixed_before_def)
  qed
  have e: "extract_references_from_doc
     [[\<lparr>highlight_val = None, children = [WT (u ''References'')]\<rparr>],
      [\<lparr>highlight_val = None, children = [WT (u ''Klein, M. (1946).'')]\<rparr>],
      [\<lparr>highlight_val = None, children = [WT (u ''Klein, M. (1946).'')]\<rparr>]] 0
     = {(u ''Klein'', u ''1946a''), (u ''Klein'', u ''1946b''), (u ''Klein'', u ''1946'')}"
    by code_simp
  show ?thesis using a b e by (simp add: Let_def)
qed

text \<open>
  The theorem at the bibliography with the two entries \<open>Klein, M. (1946).\<close>: the
  second entry is entry 1 of a group without suffixes, and one entry of the group comes
  before it.
\<close>

theorem suffix_auto_assignment_witness:
  "raw_refs 1 [u ''Klein, M. (1946).'', u ''Klein, M. (1946).'']
     = [(u ''Klein'', u ''1946'', 1), (u ''Klein'', u ''1946'', 2)] \<and>
   \<not> has_suffix (u ''1946'') \<and>
   unsuffixed_before [(u ''Klein'', u ''1946'', 1), (u ''Klein'', u ''1946'', 2)] 1 = 1 \<and>
   entry_keys [(u ''Klein'', u ''1946'', 1), (u ''Klein'', u ''1946'', 2)] 1
     = {(u ''Klein'', u ''1946b''), (u ''Klein'', u ''1946'')}"
proof -
  let ?doc = "[[\<lparr>highlight_val = None, children = [WT (u ''References'')]\<rparr>],
      [\<lparr>highlight_val = None, children = [WT (u ''Klein, M. (1946).'')]\<rparr>],
      [\<lparr>highlight_val = None, children = [WT (u ''Klein, M. (1946).'')]\<rparr>]]"
  let ?raw = "[(u ''Klein'', u ''1946'', 1::nat), (u ''Klein'', u ''1946'', 2)]"
  have r: "raw_refs (0 + 1) (map para_text (drop (0 + 1) ?doc)) = ?raw"
    by code_simp
  have r1: "raw_refs 1 [u ''Klein, M. (1946).'', u ''Klein, M. (1946).''] = ?raw"
    by code_simp
  have h: "\<not> has_suffix (u ''1946'')"
    by code_simp
  have g: "length (filter (\<lambda>r. base_key r = base_key (?raw ! 1)) (take 1 ?raw)) = 1"
    by code_simp
  have s: "1 < group_size ?raw 1"
    by code_simp
  have y: "u ''1946'' @ [97 + 1] = u ''1946b''"
    by code_simp
  from suffix_auto_assignment [of 0 ?doc 1]
  have "1 < length ?raw \<and>
       (\<forall>r \<in> set ?raw. base_key r = base_key (?raw ! 1) \<longrightarrow> \<not> has_suffix (fst (snd r))) \<longrightarrow>
         unsuffixed_before ?raw 1
           = length (filter (\<lambda>r. base_key r = base_key (?raw ! 1)) (take 1 ?raw))"
    unfolding r Let_def by (rule conjunct1 [THEN conjunct2])
  with h g have n: "unsuffixed_before ?raw 1 = 1" by simp
  have "entry_keys ?raw 1 = {(u ''Klein'', u ''1946b''), (u ''Klein'', u ''1946'')}"
    using s h n y by (simp add: entry_keys_def)
  with r1 h n show ?thesis by simp
qed

section \<open>Facts about the matcher\<close>

lemma rep_none_left [simp]: "rep f 0 (Some 0) g st = [st]"
  by (cases f) simp_all




lemma rmatch_lit:
  "rmatch (Lit c) (p, rest, caps) =
     (case rest of [] \<Rightarrow> [] | x # xs \<Rightarrow> if x = c then [(Suc p, xs, caps)] else [])"
  by simp

text \<open>Every result of a repeated character class is a prefix of characters of the class.\<close>

lemma rep_cls_results:
  "st' \<in> set (rep f lo hi (rmatch (Cls P)) (p, rest, caps)) \<Longrightarrow>
     \<exists>k. st' = (p + k, drop k rest, caps) \<and> k \<le> length rest \<and> lo \<le> k \<and> list_all P (take k rest)"
proof (induction f arbitrary: lo hi p rest st')
  case 0
  then show ?case by (auto split: if_splits)
next
  case (Suc f)
  show ?case
  proof (cases "hi = Some 0")
    case True
    with Suc.prems show ?thesis by (auto split: if_splits)
  next
    case False
    from Suc.prems False have
      "st' \<in> set (concat (map (rep f (lo - 1) (map_option (\<lambda>h. h - 1) hi) (rmatch (Cls P)))
                 (filter (\<lambda>s. fst (p, rest, caps) < fst s) (rmatch (Cls P) (p, rest, caps)))))
       \<or> (lo = 0 \<and> st' = (p, rest, caps))"
      by (auto split: if_splits)
    then show ?thesis
    proof
      assume "lo = 0 \<and> st' = (p, rest, caps)"
      then show ?thesis by (intro exI [of _ 0]) simp
    next
      assume a: "st' \<in> set (concat (map (rep f (lo - 1) (map_option (\<lambda>h. h - 1) hi) (rmatch (Cls P)))
                 (filter (\<lambda>s. fst (p, rest, caps) < fst s) (rmatch (Cls P) (p, rest, caps)))))"
      then obtain c cs where r: "rest = c # cs" "P c"
        and b: "st' \<in> set (rep f (lo - 1) (map_option (\<lambda>h. h - 1) hi) (rmatch (Cls P)) (Suc p, cs, caps))"
        by (cases rest) (auto split: if_splits)
      from Suc.IH [OF b] obtain k where
        k: "st' = (Suc p + k, drop k cs, caps)" "k \<le> length cs" "lo - 1 \<le> k" "list_all P (take k cs)"
        by blast
      show ?thesis
        using k r by (intro exI [of _ "Suc k"]) auto
    qed
  qed
qed

section \<open>Runs that hold text only\<close>

definition text_only :: "docx_para \<Rightarrow> bool" where
  "text_only p = list_all (\<lambda>r. list_all is_WT (children r)) p"

definition char_marks :: "docx_para \<Rightarrow> highlight option list" where
  "char_marks p = concat (map (\<lambda>r. replicate (length (run_text r)) (highlight_val r)) p)"



lemma para_text_simps [simp]:
  "para_text [] = []"
  "para_text (r # rs) = run_text r @ para_text rs"
  by (simp_all add: para_text_def)

lemma char_marks_simps [simp]:
  "char_marks [] = []"
  "char_marks (r # rs) = replicate (length (run_text r)) (highlight_val r) @ char_marks rs"
  by (simp_all add: char_marks_def)

lemma text_only_simps [simp]:
  "text_only []"
  "text_only (r # rs) \<longleftrightarrow> list_all is_WT (children r) \<and> text_only rs"
  by (simp_all add: text_only_def)












lemma run_text_set_highlight [simp]: "run_text (set_highlight r col) = run_text r"
  by (simp add: run_text_def set_highlight_def)

lemma mark_runs_text [simp]: "para_text (mark_runs pos a b col p) = para_text p"
  by (induction p arbitrary: pos) simp_all





section \<open>The span of a reference\<close>














section \<open>The keys of the span locator\<close>

lemma filter_neq_id: "a \<notin> set xs \<Longrightarrow> filter (\<lambda>c. c \<noteq> a) xs = xs"
  by (induction xs) auto

lemma replace_char_keeps: "a \<notin> set xs \<Longrightarrow> b \<noteq> a \<Longrightarrow> a \<notin> set (replace_char c b xs)"
  by (auto simp: replace_char_def)

lemma normalize_text_visible:
  assumes "8203 \<notin> set ptext" "8206 \<notin> set ptext" "8207 \<notin> set ptext"
  shows "normalize_text ptext = normalize_for_highlight ptext"
proof -
  have "a \<notin> set (normalize_for_highlight ptext)"
    if "a \<notin> set ptext" "a \<noteq> 45" "a \<noteq> 34" "a \<noteq> 39" for a
    unfolding normalize_for_highlight_def using that by (intro replace_char_keeps) auto
  with assms show ?thesis
    by (simp add: normalize_text_def normalize_for_highlight_def [symmetric] delete_char_def
                  filter_neq_id)
qed

text \<open>
  Each loop of the span locator adds spans of its own recognizer only, and the keys of
  a span it adds are the keys of the recognizer for one match of its pattern.
\<close>

lemma foldl_accept:
  assumes "\<And>acc m. h \<in> set (f acc m) \<Longrightarrow> h \<in> set acc \<or> P m"
  shows "h \<in> set (foldl f acc ms) \<Longrightarrow> h \<in> set acc \<or> (\<exists>m \<in> set ms. P m)"
proof (induction ms arbitrary: acc)
  case Nil
  then show ?case by simp
next
  case (Cons m ms)
  from Cons.prems have "h \<in> set (foldl f (f acc m) ms)" by simp
  from Cons.IH [OF this] assms [of acc m] show ?case by auto
qed

lemma foldl_accept_bracket:
  "h \<in> set (foldl (accept_bracket noise refs idx t) acc ms) \<Longrightarrow>
   h \<in> set acc \<or>
   (\<exists>m \<in> set ms. cs_recognizer h = Bracket \<and> cs_keys h = keys_bracket noise t m)"
  by (rule foldl_accept) (auto simp: accept_bracket_def keys_bracket_def split: if_splits)

lemma foldl_accept_bracket_multi:
  "h \<in> set (foldl (accept_bracket_multi noise refs idx t) acc ms) \<Longrightarrow>
   h \<in> set acc \<or>
   (\<exists>m \<in> set ms. cs_recognizer h = BracketMulti \<and> cs_keys h = keys_bracket_multi noise t m)"
  by (rule foldl_accept) (auto simp: accept_bracket_multi_def split: if_splits)

lemma foldl_accept_parenthetical:
  "h \<in> set (foldl (accept_parenthetical noise refs idx t) acc ms) \<Longrightarrow>
   h \<in> set acc \<or>
   (\<exists>m \<in> set ms. cs_recognizer h = Parenthetical \<and>
       cs_keys h = keys_parenthetical noise (mgroup t m 1))"
  by (rule foldl_accept) (auto simp: accept_parenthetical_def split: if_splits)

lemma foldl_accept_narrative:
  "h \<in> set (foldl (accept_narrative noise refs idx t) acc ms) \<Longrightarrow>
   h \<in> set acc \<or>
   (\<exists>m \<in> set ms. cs_recognizer h = Narrative \<and> cs_keys h = keys_narrative noise t m)"
  by (rule foldl_accept) (auto simp: accept_narrative_def keys_narrative_def split: if_splits)

lemma foldl_accept_possessive:
  "h \<in> set (foldl (accept_possessive noise refs idx t) acc ms) \<Longrightarrow>
   h \<in> set acc \<or>
   (\<exists>m \<in> set ms. cs_recognizer h = Possessive \<and> cs_keys h = keys_possessive noise t m)"
  by (rule foldl_accept) (auto simp: accept_possessive_def split: if_splits)

lemma foldl_accept_colleagues:
  "h \<in> set (foldl (accept_colleagues noise refs idx t) acc ms) \<Longrightarrow>
   h \<in> set acc \<or>
   (\<exists>m \<in> set ms. cs_recognizer h = Colleagues \<and> cs_keys h = keys_subject_paren noise t m)"
  by (rule foldl_accept) (auto simp: accept_colleagues_def split: if_splits)

lemma foldl_accept_lowercase:
  "h \<in> set (foldl (accept_lowercase noise refs idx t) acc ms) \<Longrightarrow>
   h \<in> set acc \<or> (\<exists>m \<in> set ms. cs_recognizer h = Lowercase)"
  by (rule foldl_accept) (auto simp: accept_lowercase_def split: if_splits)

lemma locate_spans_cases:
  assumes "h \<in> set (locate_spans noise refs idx ptext)"
  defines "t \<equiv> normalize_for_highlight ptext"
  shows "(cs_recognizer h = Bracket \<and>
            (\<exists>m \<in> set (finditer rx_bracket t). cs_keys h = keys_bracket noise t m)) \<or>
         (cs_recognizer h = BracketMulti \<and>
            (\<exists>m \<in> set (finditer rx_bracket_multi t). cs_keys h = keys_bracket_multi noise t m)) \<or>
         (cs_recognizer h = Parenthetical \<and>
            (\<exists>m \<in> set (finditer rx_paren_year t).
               cs_keys h = keys_parenthetical noise (mgroup t m 1))) \<or>
         (cs_recognizer h = Narrative \<and>
            (\<exists>m \<in> set (finditer rx_narrative t). cs_keys h = keys_narrative noise t m)) \<or>
         (cs_recognizer h = Possessive \<and>
            (\<exists>m \<in> set (finditer rx_possessive t). cs_keys h = keys_possessive noise t m)) \<or>
         (cs_recognizer h = Colleagues \<and>
            (\<exists>m \<in> set (finditer rx_colleagues t). cs_keys h = keys_subject_paren noise t m)) \<or>
         cs_recognizer h = Lowercase"
proof -
  from assms(1) have
    "h \<in> set (foldl (accept_lowercase noise refs idx t)
         (foldl (accept_colleagues noise refs idx t)
           (foldl (accept_possessive noise refs idx t)
             (foldl (accept_narrative noise refs idx t)
               (foldl (accept_parenthetical noise refs idx t)
                 (foldl (accept_bracket_multi noise refs idx t)
                   (foldl (accept_bracket noise refs idx t) []
                      (finditer rx_bracket t))
                   (finditer rx_bracket_multi t))
                 (finditer rx_paren_year t))
               (finditer rx_narrative t))
             (finditer rx_possessive t))
           (finditer rx_colleagues t))
         (finditer rx_lowercase_paren t))"
    unfolding locate_spans_def t_def by (simp split: if_splits)
  then show ?thesis
    by (auto dest!: foldl_accept_lowercase foldl_accept_colleagues foldl_accept_possessive
          foldl_accept_narrative foldl_accept_parenthetical foldl_accept_bracket_multi
          foldl_accept_bracket)
qed

lemma citation_keys_narrative:
  "m \<in> set (finditer rx_narrative t) \<Longrightarrow> set (keys_narrative noise t m) \<subseteq> set (citation_keys noise t)"
  unfolding citation_keys_def by auto

lemma citation_keys_possessive:
  "m \<in> set (finditer rx_possessive t) \<Longrightarrow> set (keys_possessive noise t m) \<subseteq> set (citation_keys noise t)"
  unfolding citation_keys_def by auto

lemma citation_keys_bracket:
  "m \<in> set (finditer rx_bracket t) \<Longrightarrow> set (keys_bracket noise t m) \<subseteq> set (citation_keys noise t)"
  unfolding citation_keys_def by auto

lemma citation_keys_bracket_multi:
  "m \<in> set (finditer rx_bracket_multi t) \<Longrightarrow>
   set (keys_bracket_multi noise t m) \<subseteq> set (citation_keys noise t)"
  unfolding citation_keys_def by auto

lemma citation_keys_colleagues:
  "m \<in> set (finditer rx_colleagues t) \<Longrightarrow>
   set (keys_subject_paren noise t m) \<subseteq> set (citation_keys noise t)"
  unfolding citation_keys_def by auto

lemma citation_keys_parenthetical:
  "b \<in> set (findall rx_paren_block t) \<Longrightarrow>
   set (keys_parenthetical noise b) \<subseteq> set (citation_keys noise t)"
  unfolding citation_keys_def by auto

lemma extract_citations_key:
  "(surname, year) \<in> set (citation_keys noise (normalize_text ptext)) \<Longrightarrow>
   (normalize_surname surname, year) \<in> extract_citations_from_text noise ptext"
  unfolding extract_citations_from_text_def by force

text \<open>
  C4, as stated, fails. For \<open>Smith (2009)\<close> the extractor returns two keys, because
  its lowercase pattern also matches \<open>mith (2009)\<close>, while the span locator accepts the
  narrative span and drops the lowercase candidate, which overlaps it. For
  \<open>stiles (2009, 2010)\<close> the lowercase pattern of the locator takes the list of years,
  that of the extractor only the first year.
\<close>

theorem locator_keys_differ:
  "located_keys NOISE_WORDS {} Map.empty (u ''Smith (2009)'') = {(u ''Smith'', u ''2009'')} \<and>
   extract_citations_from_text NOISE_WORDS (u ''Smith (2009)'')
     = {(u ''Smith'', u ''2009''), (u ''Mith'', u ''2009'')} \<and>
   located_keys NOISE_WORDS {} Map.empty (u ''stiles (2009, 2010)'')
     = {(u ''Stiles'', u ''2009''), (u ''Stiles'', u ''2010'')} \<and>
   extract_citations_from_text NOISE_WORDS (u ''stiles (2009, 2010)'')
     = {(u ''Stiles'', u ''2009'')}"
  by code_simp

text \<open>
  C4, as the program has it. Five loops of the span locator (4a, 4b, narrative,
  possessive, and colleagues) use the pattern of the extractor and compute the keys of
  a match as the extractor does. So in a paragraph without the invisible marks U+200B,
  U+200E and U+200F, where the two normalizations agree, every key of a span that one
  of these loops accepts is, with its surname normalized, a key that
  \<open>extract_citations_from_text\<close> returns for the text of the paragraph.
\<close>

theorem locator_keys_extracted:
  assumes "8203 \<notin> set ptext" "8206 \<notin> set ptext" "8207 \<notin> set ptext"
    and "h \<in> set (locate_spans noise refs idx ptext)"
    and "cs_recognizer h \<in> {Bracket, BracketMulti, Narrative, Possessive, Colleagues}"
    and "(surname, year) \<in> set (cs_keys h)"
  shows "(normalize_surname surname, year) \<in> extract_citations_from_text noise ptext"
proof -
  let ?t = "normalize_for_highlight ptext"
  have t: "normalize_text ptext = ?t"
    using assms(1-3) by (rule normalize_text_visible)
  from assms(5) have r: "cs_recognizer h \<noteq> Parenthetical" "cs_recognizer h \<noteq> Lowercase"
    by auto
  from locate_spans_cases [OF assms(4)] r consider
      (b) m where "m \<in> set (finditer rx_bracket ?t)" "cs_keys h = keys_bracket noise ?t m"
    | (bm) m where "m \<in> set (finditer rx_bracket_multi ?t)"
        "cs_keys h = keys_bracket_multi noise ?t m"
    | (n) m where "m \<in> set (finditer rx_narrative ?t)" "cs_keys h = keys_narrative noise ?t m"
    | (p) m where "m \<in> set (finditer rx_possessive ?t)" "cs_keys h = keys_possessive noise ?t m"
    | (c) m where "m \<in> set (finditer rx_colleagues ?t)"
        "cs_keys h = keys_subject_paren noise ?t m"
    by blast
  then have "set (cs_keys h) \<subseteq> set (citation_keys noise ?t)"
  proof cases
    case b
    then show ?thesis using citation_keys_bracket by simp
  next
    case bm
    then show ?thesis using citation_keys_bracket_multi by simp
  next
    case n
    then show ?thesis using citation_keys_narrative by simp
  next
    case p
    then show ?thesis using citation_keys_possessive by simp
  next
    case c
    then show ?thesis using citation_keys_colleagues by simp
  qed
  with assms(6) have "(surname, year) \<in> set (citation_keys noise (normalize_text ptext))"
    using t by auto
  then show ?thesis by (rule extract_citations_key)
qed

text \<open>The theorem at the paragraph \<open>Smith (2009)\<close> and its narrative span.\<close>

theorem locator_keys_extracted_witness:
  "8203 \<notin> set (u ''Smith (2009)'') \<and> 8206 \<notin> set (u ''Smith (2009)'') \<and>
   8207 \<notin> set (u ''Smith (2009)'') \<and>
   locate_spans NOISE_WORDS {} Map.empty (u ''Smith (2009)'')
     = [\<lparr>cs_start = 0, cs_end = 12, cs_keys = [(u ''Smith'', u ''2009'')],
         cs_color = YELLOW_HIGHLIGHT, cs_recognizer = Narrative\<rparr>] \<and>
   (normalize_surname (u ''Smith''), u ''2009'')
     \<in> extract_citations_from_text NOISE_WORDS (u ''Smith (2009)'')"
proof -
  let ?h = "\<lparr>cs_start = 0, cs_end = 12, cs_keys = [(u ''Smith'', u ''2009'')],
         cs_color = YELLOW_HIGHLIGHT, cs_recognizer = Narrative\<rparr>"
  have v: "8203 \<notin> set (u ''Smith (2009)'')" "8206 \<notin> set (u ''Smith (2009)'')"
    "8207 \<notin> set (u ''Smith (2009)'')"
    by code_simp+
  have l: "locate_spans NOISE_WORDS {} Map.empty (u ''Smith (2009)'') = [?h]"
    by code_simp
  then have m: "?h \<in> set (locate_spans NOISE_WORDS {} Map.empty (u ''Smith (2009)''))"
    by simp
  have "(normalize_surname (u ''Smith''), u ''2009'')
     \<in> extract_citations_from_text NOISE_WORDS (u ''Smith (2009)'')"
    using locator_keys_extracted [OF v m, of "u ''Smith''" "u ''2009''"] by simp
  with v l show ?thesis by simp
qed

end
